theory Spec2Isabelle
  imports Main "HOL-Library.Char_ord" "HOL-Library.List_Lexorder" "HOL-Library.Multiset"
begin

section \<open>Python values and the failures of the operations used on them\<close>

text \<open>
  The dashboard works on the decoded JSON bodies of the GitLab API. A decoded body is a
  Python value built from \<open>None\<close>, booleans, integers, strings, lists and dictionaries
  (a dictionary as its items in insertion order). Non-integer numbers do not occur in
  the fields the program reads and are left out.
\<close>

datatype json =
    JNull
  | JBool bool
  | JInt int
  | JStr string
  | JArr "json list"
  | JObj "(string \<times> json) list"

text \<open>Every exception the program can meet is a value; \<open>Inl\<close> carries it.\<close>

datatype error =
    KeyError
  | TypeError
  | ValueError
  | AttributeError
  | IndexError
  | OverflowError
  | ConnectionError
  | JSONDecodeError

text \<open>Truth value of a Python object, as \<open>not resp.json()\<close> tests it.\<close>

fun truthy :: "json \<Rightarrow> bool" where
  "truthy JNull = False"
| "truthy (JBool b) = b"
| "truthy (JInt i) = (i \<noteq> 0)"
| "truthy (JStr s) = (s \<noteq> [])"
| "truthy (JArr xs) = (xs \<noteq> [])"
| "truthy (JObj kvs) = (kvs \<noteq> [])"

text \<open>\<open>v[k]\<close> with a string key: only a dictionary holding the key answers.\<close>

fun getitem :: "json \<Rightarrow> string \<Rightarrow> error + json" where
  "getitem (JObj kvs) k = (case map_of kvs k of None \<Rightarrow> Inl KeyError | Some v \<Rightarrow> Inr v)"
| "getitem v k = Inl TypeError"

text \<open>\<open>v[0]\<close>: the first element of a list or string; a dictionary of a decoded JSON body
  has string keys only, so the key \<open>0\<close> is missing.\<close>

fun getitem0 :: "json \<Rightarrow> error + json" where
  "getitem0 (JArr []) = Inl IndexError"
| "getitem0 (JArr (x # xs)) = Inr x"
| "getitem0 (JStr []) = Inl IndexError"
| "getitem0 (JStr (c # cs)) = Inr (JStr [c])"
| "getitem0 (JObj kvs) = Inl KeyError"
| "getitem0 v = Inl TypeError"

text \<open>\<open>v.get(k, d)\<close>: a method of dictionaries only.\<close>

fun dict_get :: "json \<Rightarrow> string \<Rightarrow> json \<Rightarrow> error + json" where
  "dict_get (JObj kvs) k d = (case map_of kvs k of None \<Rightarrow> Inr d | Some v \<Rightarrow> Inr v)"
| "dict_get v k d = Inl AttributeError"

text \<open>\<open>for event in v\<close>: a list yields its elements, a dictionary its keys, a string its
  characters; nothing else is iterable.\<close>

fun iterate :: "json \<Rightarrow> error + json list" where
  "iterate (JArr xs) = Inr xs"
| "iterate (JObj kvs) = Inr (map (\<lambda>kv. JStr (fst kv)) kvs)"
| "iterate (JStr s) = Inr (map (\<lambda>c. JStr [c]) s)"
| "iterate v = Inl TypeError"

section \<open>Dates and times\<close>

record pydate =
  year :: nat
  month :: nat
  day :: nat

record datetime = pydate +
  hour :: nat
  minute :: nat
  second :: nat
  microsecond :: nat

definition date_of :: "datetime \<Rightarrow> pydate" where
  "date_of dt = \<lparr>year = year dt, month = month dt, day = day dt\<rparr>"

definition is_leap :: "nat \<Rightarrow> bool" where
  "is_leap y = (y mod 4 = 0 \<and> (y mod 100 \<noteq> 0 \<or> y mod 400 = 0))"

definition days_in_month :: "nat \<Rightarrow> nat \<Rightarrow> nat" where
  "days_in_month y m =
     (if m = 2 then (if is_leap y then 29 else 28)
      else if m = 4 \<or> m = 6 \<or> m = 9 \<or> m = 11 then 30 else 31)"

definition MAXYEAR :: nat where
  "MAXYEAR = 9999"

text \<open>\<open>timedelta(hours=5, minutes=30)\<close>, in minutes.\<close>

definition ist_offset :: nat where
  "ist_offset = 5 * 60 + 30"

text \<open>
  \<open>dt + timedelta(hours=5, minutes=30)\<close>. The offset is shorter than a day, so the sum
  stays on the day of \<open>dt\<close> or moves to the next one; past 9999-12-31 Python raises
  OverflowError.
\<close>

definition plus_ist :: "datetime \<Rightarrow> error + datetime" where
  "plus_ist dt =
     (let total = hour dt * 60 + minute dt + ist_offset in
      if total < 24 * 60 then Inr (dt\<lparr>hour := total div 60, minute := total mod 60\<rparr>)
      else
        let h = (total - 24 * 60) div 60; mi = (total - 24 * 60) mod 60 in
        if day dt < days_in_month (year dt) (month dt)
          then Inr (dt\<lparr>day := day dt + 1, hour := h, minute := mi\<rparr>)
        else if month dt < 12
          then Inr (dt\<lparr>month := month dt + 1, day := 1, hour := h, minute := mi\<rparr>)
        else if year dt < MAXYEAR
          then Inr (dt\<lparr>year := year dt + 1, month := 1, day := 1, hour := h, minute := mi\<rparr>)
        else Inl OverflowError)"

definition two_digits :: "nat \<Rightarrow> string" where
  "two_digits n = [''0123456789'' ! ((n div 10) mod 10), ''0123456789'' ! (n mod 10)]"

text \<open>\<open>dt.strftime("%I:%M %p")\<close>: the 12-hour clock, zero padded, and AM or PM.\<close>

definition strftime_IMp :: "datetime \<Rightarrow> string" where
  "strftime_IMp dt =
     two_digits (if hour dt mod 12 = 0 then 12 else hour dt mod 12) @ '':'' @
     two_digits (minute dt) @ '' '' @ (if hour dt < 12 then ''AM'' else ''PM'')"

text \<open>
  The functions of the Python library whose full behaviour is not part of this
  program are parameters: \<open>strptime\<close> is \<open>datetime.strptime(s, "%Y-%m-%dT%H:%M:%S.%fZ")\<close>
  (\<open>None\<close> where it raises ValueError), \<open>repr\<close> is the text of a list or dictionary.
\<close>

record pylib =
  strptime :: "string \<Rightarrow> datetime option"
  repr :: "json \<Rightarrow> string"

text \<open>\<open>str(n)\<close> of an integer.\<close>

fun str_nat :: "nat \<Rightarrow> string" where
  "str_nat n =
     (if n < 10 then [''0123456789'' ! n]
      else str_nat (n div 10) @ [''0123456789'' ! (n mod 10)])"

definition str_int :: "int \<Rightarrow> string" where
  "str_int i = (if i < 0 then ''-'' @ str_nat (nat (- i)) else str_nat (nat i))"

text \<open>The text an f-string puts in place of \<open>{v}\<close>.\<close>

fun py_str :: "pylib \<Rightarrow> json \<Rightarrow> string" where
  "py_str lib JNull = ''None''"
| "py_str lib (JBool b) = (if b then ''True'' else ''False'')"
| "py_str lib (JInt i) = str_int i"
| "py_str lib (JStr s) = s"
| "py_str lib v = repr lib v"

section \<open>The remote service\<close>

text \<open>
  A response carries its status code and its body, \<open>None\<close> when the body is not JSON
  (\<open>resp.json()\<close> raises). The service answers a request for a URL given the requests
  made before it, so it may answer the same URL differently over time; no answer at
  all is the transport failure on which \<open>requests.get\<close> raises. The list of requested
  URLs is threaded through every call: it is the instrumentation that counts lookups.
\<close>

record response =
  status_code :: nat
  body :: "json option"

type_synonym server = "string list \<Rightarrow> string \<Rightarrow> response option"

definition GITLAB_API :: string where
  "GITLAB_API = ''https://code.swecha.org/api/v4''"

definition requests_get :: "server \<Rightarrow> string \<Rightarrow> string list \<Rightarrow> (error + response) \<times> string list" where
  "requests_get srv url log =
     (case srv log url of
        None \<Rightarrow> (Inl ConnectionError, log @ [url])
      | Some resp \<Rightarrow> (Inr resp, log @ [url]))"

text \<open>\<open>resp.ok\<close>: the status is neither a client error nor a server error.\<close>

definition ok :: "response \<Rightarrow> bool" where
  "ok resp = (\<not> (400 \<le> status_code resp \<and> status_code resp < 600))"

definition resp_json :: "response \<Rightarrow> error + json" where
  "resp_json resp = (case body resp of None \<Rightarrow> Inl JSONDecodeError | Some v \<Rightarrow> Inr v)"

text \<open>The three URLs the program builds, each an f-string over \<open>GITLAB_API\<close>.\<close>

definition users_url :: "string \<Rightarrow> string" where
  "users_url username = GITLAB_API @ ''/users?username='' @ username"

definition events_url :: "pylib \<Rightarrow> json \<Rightarrow> string" where
  "events_url lib user_id = GITLAB_API @ ''/users/'' @ py_str lib user_id @ ''/events''"

definition project_url :: "pylib \<Rightarrow> json \<Rightarrow> string" where
  "project_url lib project_id = GITLAB_API @ ''/projects/'' @ py_str lib project_id"

section \<open>fetch_user_events\<close>

record push_event =
  project :: json
  branch :: json
  time :: string

text \<open>
  The body of the event loop for one event: \<open>Inr None\<close> when the event is passed over,
  \<open>Inr (Some p)\<close> when \<open>p\<close> is appended to \<open>push_events\<close>, \<open>Inl\<close> when the body raises.
  The dictionary display evaluates \<open>event['project_id']\<close>, then
  \<open>event['push_data'].get('ref')\<close>, then the time.
\<close>

definition push_of :: "pylib \<Rightarrow> pydate \<Rightarrow> json \<Rightarrow> error + push_event option" where
  "push_of lib today_ist event =
     (case getitem event ''action_name'' of
        Inl e \<Rightarrow> Inl e
      | Inr action \<Rightarrow>
          if action \<noteq> JStr ''pushed to'' then Inr None
          else (case getitem event ''created_at'' of
            Inl e \<Rightarrow> Inl e
          | Inr (JStr s) \<Rightarrow>
              (case strptime lib s of
                 None \<Rightarrow> Inl ValueError
               | Some parsed \<Rightarrow>
                   (case plus_ist parsed of
                      Inl e \<Rightarrow> Inl e
                    | Inr event_time \<Rightarrow>
                        if date_of event_time \<noteq> today_ist then Inr None
                        else (case getitem event ''project_id'' of
                          Inl e \<Rightarrow> Inl e
                        | Inr pid \<Rightarrow>
                            (case getitem event ''push_data'' of
                               Inl e \<Rightarrow> Inl e
                             | Inr push_data \<Rightarrow>
                                 (case dict_get push_data ''ref'' JNull of
                                    Inl e \<Rightarrow> Inl e
                                  | Inr ref \<Rightarrow>
                                      Inr (Some \<lparr>project = pid, branch = ref,
                                                 time = strftime_IMp event_time\<rparr>))))))
          | Inr other \<Rightarrow> Inl TypeError))"

fun event_loop :: "pylib \<Rightarrow> pydate \<Rightarrow> json list \<Rightarrow> push_event list \<Rightarrow> error + push_event list" where
  "event_loop lib today_ist [] push_events = Inr push_events"
| "event_loop lib today_ist (event # events) push_events =
     (case push_of lib today_ist event of
        Inl e \<Rightarrow> Inl e
      | Inr None \<Rightarrow> event_loop lib today_ist events push_events
      | Inr (Some p) \<Rightarrow> event_loop lib today_ist events (push_events @ [p]))"

text \<open>
  The result is the pair \<open>(user_id, push_events)\<close>; Python's \<open>None\<close> is \<open>JNull\<close>. The
  global \<open>today_ist\<close>, computed once when the script starts, is an argument.
\<close>

definition fetch_user_events ::
  "pylib \<Rightarrow> pydate \<Rightarrow> server \<Rightarrow> string \<Rightarrow> string list \<Rightarrow> (error + json \<times> push_event list) \<times> string list" where
  "fetch_user_events lib today_ist srv username log =
     (case requests_get srv (users_url username) log of
        (Inl e, log1) \<Rightarrow> (Inl e, log1)
      | (Inr resp, log1) \<Rightarrow>
          if \<not> ok resp then (Inr (JNull, []), log1)
          else (case resp_json resp of
            Inl e \<Rightarrow> (Inl e, log1)
          | Inr users \<Rightarrow>
              if \<not> truthy users then (Inr (JNull, []), log1)
              else (case getitem0 users of
                Inl e \<Rightarrow> (Inl e, log1)
              | Inr user \<Rightarrow>
                  (case getitem user ''id'' of
                     Inl e \<Rightarrow> (Inl e, log1)
                   | Inr user_id \<Rightarrow>
                       (case requests_get srv (events_url lib user_id) log1 of
                          (Inl e, log2) \<Rightarrow> (Inl e, log2)
                        | (Inr events_resp, log2) \<Rightarrow>
                            if \<not> ok events_resp then (Inr (user_id, []), log2)
                            else (case resp_json events_resp of
                              Inl e \<Rightarrow> (Inl e, log2)
                            | Inr events \<Rightarrow>
                                (case iterate events of
                                   Inl e \<Rightarrow> (Inl e, log2)
                                 | Inr evs \<Rightarrow>
                                     (case event_loop lib today_ist evs [] of
                                        Inl e \<Rightarrow> (Inl e, log2)
                                      | Inr push_events \<Rightarrow>
                                          (Inr (user_id, push_events), log2)))))))))"

section \<open>resolve_project_name\<close>

definition resolve_project_name ::
  "pylib \<Rightarrow> server \<Rightarrow> json \<Rightarrow> string list \<Rightarrow> (error + json) \<times> string list" where
  "resolve_project_name lib srv project_id log =
     (case requests_get srv (project_url lib project_id) log of
        (Inl e, log1) \<Rightarrow> (Inl e, log1)
      | (Inr project_resp, log1) \<Rightarrow>
          if ok project_resp then
            (case resp_json project_resp of
               Inl e \<Rightarrow> (Inl e, log1)
             | Inr v \<Rightarrow> (dict_get v ''name'' (JStr ''Unknown''), log1))
          else if status_code project_resp = 404 then (Inr (JStr ''Project not found or private''), log1)
          else if status_code project_resp = 403 then (Inr (JStr ''Access denied''), log1)
          else (Inr (JStr ''Unknown''), log1))"

section \<open>The bulk upload tab\<close>

record row =
  username :: string
  push_events :: nat
  activity :: string

text \<open>\<open>"\n".join(xs)\<close>\<close>

fun join_nl :: "string list \<Rightarrow> string" where
  "join_nl [] = []"
| "join_nl [x] = x"
| "join_nl (x # y # ys) = x @ [CHR 0x0A] @ join_nl (y # ys)"

text \<open>\<open>f"Pushed to '{event['branch']}' in '{project_name}' at {event['time']}"\<close>\<close>

definition activity_line :: "pylib \<Rightarrow> push_event \<Rightarrow> json \<Rightarrow> string" where
  "activity_line lib event project_name =
     ''Pushed to '' @ [CHR 0x27] @ py_str lib (branch event) @ [CHR 0x27] @
     '' in '' @ [CHR 0x27] @ py_str lib project_name @ [CHR 0x27] @
     '' at '' @ time event"

fun activity_loop ::
  "pylib \<Rightarrow> server \<Rightarrow> push_event list \<Rightarrow> string list \<Rightarrow> string list \<Rightarrow> (error + string list) \<times> string list" where
  "activity_loop lib srv [] activity_log log = (Inr activity_log, log)"
| "activity_loop lib srv (event # events) activity_log log =
     (case resolve_project_name lib srv (project event) log of
        (Inl e, log1) \<Rightarrow> (Inl e, log1)
      | (Inr project_name, log1) \<Rightarrow>
          activity_loop lib srv events (activity_log @ [activity_line lib event project_name]) log1)"

definition NO_PUSHES :: string where
  "NO_PUSHES = ''No push events today.''"

fun batch_loop ::
  "pylib \<Rightarrow> pydate \<Rightarrow> server \<Rightarrow> string list \<Rightarrow> row list \<Rightarrow> string list \<Rightarrow> (error + row list) \<times> string list" where
  "batch_loop lib today_ist srv [] results log = (Inr results, log)"
| "batch_loop lib today_ist srv (name # names) results log =
     (case fetch_user_events lib today_ist srv name log of
        (Inl e, log1) \<Rightarrow> (Inl e, log1)
      | (Inr (user_id, events), log1) \<Rightarrow>
          (case activity_loop lib srv events [] log1 of
             (Inl e, log2) \<Rightarrow> (Inl e, log2)
           | (Inr activity_log, log2) \<Rightarrow>
               batch_loop lib today_ist srv names
                 (results @
                   [\<lparr>username = name, push_events = length events,
                     activity = (if activity_log \<noteq> [] then join_nl activity_log else NO_PUSHES)\<rparr>])
                 log2))"

text \<open>The rows of \<open>result_df\<close> for the \<open>username\<close> column of the uploaded file.\<close>

definition tab1 ::
  "pylib \<Rightarrow> pydate \<Rightarrow> server \<Rightarrow> string list \<Rightarrow> string list \<Rightarrow> (error + row list) \<times> string list" where
  "tab1 lib today_ist srv names log = batch_loop lib today_ist srv names [] log"

section \<open>The individual user tab\<close>

record entry =
  Project :: json
  Branch :: json
  Time :: string

fun data_loop ::
  "pylib \<Rightarrow> server \<Rightarrow> push_event list \<Rightarrow> entry list \<Rightarrow> string list \<Rightarrow> (error + entry list) \<times> string list" where
  "data_loop lib srv [] activity_data log = (Inr activity_data, log)"
| "data_loop lib srv (event # events) activity_data log =
     (case resolve_project_name lib srv (project event) log of
        (Inl e, log1) \<Rightarrow> (Inl e, log1)
      | (Inr project_name, log1) \<Rightarrow>
          data_loop lib srv events
            (activity_data @ [\<lparr>Project = project_name, Branch = branch event, Time = time event\<rparr>])
            log1)"

text \<open>
  \<open>Counter(xs)\<close>: the counts in order of first occurrence; a list or a dictionary is
  not hashable. The library functions of this section compare values structurally,
  which is Python's comparison on the strings and \<open>None\<close> that project names are.
\<close>

fun hashable :: "json \<Rightarrow> bool" where
  "hashable (JArr xs) = False"
| "hashable (JObj kvs) = False"
| "hashable v = True"

fun counter_add :: "json \<Rightarrow> (json \<times> nat) list \<Rightarrow> (json \<times> nat) list" where
  "counter_add x [] = [(x, 1)]"
| "counter_add x ((k, n) # kvs) = (if k = x then (k, n + 1) # kvs else (k, n) # counter_add x kvs)"

definition Counter :: "json list \<Rightarrow> error + (json \<times> nat) list" where
  "Counter xs = (if list_all hashable xs then Inr (fold counter_add xs []) else Inl TypeError)"

text \<open>\<open>Series.nunique()\<close>: the number of distinct values, \<open>None\<close> left out.\<close>

definition nunique :: "json list \<Rightarrow> nat" where
  "nunique col = length (remdups (filter (\<lambda>v. v \<noteq> JNull) col))"

text \<open>
  \<open>Series.mode()\<close>: the values of highest count, \<open>None\<close> left out, sorted ascending;
  \<open>[0]\<close> takes the first and raises KeyError on the empty result. Strings sort in
  code point order.
\<close>

definition label_key :: "json \<Rightarrow> string" where
  "label_key v = (case v of JStr s \<Rightarrow> s | _ \<Rightarrow> [])"

definition mode :: "json list \<Rightarrow> json list" where
  "mode col =
     (let vals = filter (\<lambda>v. v \<noteq> JNull) col;
          peak = fold max (map (count_list vals) vals) 0
      in sort_key label_key (remdups (filter (\<lambda>v. count_list vals v = peak) vals)))"

definition mode0 :: "json list \<Rightarrow> error + json" where
  "mode0 col = (case mode col of [] \<Rightarrow> Inl KeyError | v # vs \<Rightarrow> Inr v)"

text \<open>
  \<open>pd.to_datetime(t, format='%I:%M %p')\<close> on the shape \<open>strftime\<close> writes: the minutes
  after midnight of the parsed time (its date is the fixed 1900-01-01).
\<close>

definition digit_val :: "char \<Rightarrow> nat option" where
  "digit_val c = (if CHR ''0'' \<le> c \<and> c \<le> CHR ''9'' then Some (of_char c - 48) else None)"

fun to_datetime_IMp :: "string \<Rightarrow> nat option" where
  "to_datetime_IMp [h1, h2, c, m1, m2, sp, a, b] =
     (case (digit_val h1, digit_val h2, digit_val m1, digit_val m2) of
        (Some x1, Some x2, Some y1, Some y2) \<Rightarrow>
          (let h = 10 * x1 + x2; mi = 10 * y1 + y2 in
           if c = CHR '':'' \<and> sp = CHR '' '' \<and> 1 \<le> h \<and> h \<le> 12 \<and> mi < 60
              \<and> (a = CHR ''A'' \<or> a = CHR ''P'') \<and> b = CHR ''M''
           then Some ((h mod 12 + (if a = CHR ''P'' then 12 else 0)) * 60 + mi)
           else None)
      | _ \<Rightarrow> None)"
| "to_datetime_IMp s = None"

record timed =
  T_Project :: json
  T_Branch :: json
  T_Time :: nat

fun to_timed :: "entry list \<Rightarrow> error + timed list" where
  "to_timed [] = Inr []"
| "to_timed (d # ds) =
     (case to_datetime_IMp (Time d) of
        None \<Rightarrow> Inl ValueError
      | Some t \<Rightarrow>
          (case to_timed ds of
             Inl e \<Rightarrow> Inl e
           | Inr ts \<Rightarrow> Inr (\<lparr>T_Project = Project d, T_Branch = Branch d, T_Time = t\<rparr> # ts)))"

text \<open>
  \<open>time_df.sort_values('Time')\<close>: the rows in ascending order of the column. The order
  pandas gives to rows of equal time is not fixed by its default sorting algorithm;
  the model keeps them in their order.
\<close>

definition sort_values :: "timed list \<Rightarrow> timed list" where
  "sort_values rows = sort_key T_Time rows"

record summary =
  activity_data :: "entry list"
  proj_count :: "(json \<times> nat) list"
  time_df :: "timed list"
  total :: nat
  unique_projects :: nat
  most_active :: json

datatype view = Idle | User_not_found | No_push_events | Activity_summary summary

definition tab2 ::
  "pylib \<Rightarrow> pydate \<Rightarrow> server \<Rightarrow> string \<Rightarrow> string list \<Rightarrow> (error + view) \<times> string list" where
  "tab2 lib today_ist srv name log =
     (if name = [] then (Inr Idle, log)
      else (case fetch_user_events lib today_ist srv name log of
        (Inl e, log1) \<Rightarrow> (Inl e, log1)
      | (Inr (user_id, events), log1) \<Rightarrow>
          if user_id = JNull then (Inr User_not_found, log1)
          else if events = [] then (Inr No_push_events, log1)
          else (case data_loop lib srv events [] log1 of
            (Inl e, log2) \<Rightarrow> (Inl e, log2)
          | (Inr data, log2) \<Rightarrow>
              (case Counter (map Project data) of
                 Inl e \<Rightarrow> (Inl e, log2)
               | Inr counts \<Rightarrow>
                   (case to_timed data of
                      Inl e \<Rightarrow> (Inl e, log2)
                    | Inr timeline \<Rightarrow>
                        (case mode0 (map Project data) of
                           Inl e \<Rightarrow> (Inl e, log2)
                         | Inr best \<Rightarrow>
                             (Inr (Activity_summary
                                \<lparr>activity_data = data, proj_count = counts,
                                 time_df = sort_values timeline, total = length events,
                                 unique_projects = nunique (map Project data),
                                 most_active = best\<rparr>), log2)))))))"

section \<open>The vocabulary of the specification\<close>

text \<open>
  The specification speaks of the action classification of an event, of its timestamp
  converted to local time, and of events that qualify for the report. These are its
  words, written down to compare the event loop with them.
\<close>

definition spec_is_push :: "json \<Rightarrow> bool" where
  "spec_is_push e = (getitem e ''action_name'' = Inr (JStr ''pushed to''))"

definition spec_local_date :: "pylib \<Rightarrow> json \<Rightarrow> pydate option" where
  "spec_local_date lib e =
     (case getitem e ''created_at'' of
        Inr (JStr s) \<Rightarrow>
          (case strptime lib s of
             Some t \<Rightarrow> (case plus_ist t of Inr lt \<Rightarrow> Some (date_of lt) | Inl x \<Rightarrow> None)
           | None \<Rightarrow> None)
      | _ \<Rightarrow> None)"

definition spec_qualifies :: "pylib \<Rightarrow> pydate \<Rightarrow> json \<Rightarrow> bool" where
  "spec_qualifies lib today e = (spec_is_push e \<and> spec_local_date lib e = Some today)"











text \<open>
  An event as the remote service documents it: a dictionary with an action name, and,
  when the action is a push, a timestamp that parses and stays in the range of dates
  after the offset, a project identifier and a push payload that is a dictionary.
\<close>

definition well_formed_event :: "pylib \<Rightarrow> json \<Rightarrow> bool" where
  "well_formed_event lib e =
     (case e of
        JObj kvs \<Rightarrow>
          (case map_of kvs ''action_name'' of
             None \<Rightarrow> False
           | Some a \<Rightarrow>
               a \<noteq> JStr ''pushed to'' \<or>
               ((case map_of kvs ''created_at'' of
                   Some (JStr s) \<Rightarrow>
                     (case strptime lib s of
                        Some t \<Rightarrow> (case plus_ist t of Inr lt \<Rightarrow> True | Inl x \<Rightarrow> False)
                      | None \<Rightarrow> False)
                 | _ \<Rightarrow> False)
                \<and> map_of kvs ''project_id'' \<noteq> None
                \<and> (case map_of kvs ''push_data'' of Some (JObj pd) \<Rightarrow> True | _ \<Rightarrow> False)))
      | _ \<Rightarrow> False)"

text \<open>
  Entries are in ascending order of local time when the times of day they show are;
  the labels that stand for a resolution that failed; and the number of distinct
  project names that are not such a label.
\<close>

definition clock_minutes :: "string \<Rightarrow> nat" where
  "clock_minutes t = (case to_datetime_IMp t of None \<Rightarrow> 0 | Some m \<Rightarrow> m)"

definition spec_sorted_by_local_time :: "entry list \<Rightarrow> bool" where
  "spec_sorted_by_local_time entries = sorted (map (\<lambda>d. clock_minutes (Time d)) entries)"

definition FALLBACK_LABELS :: "json list" where
  "FALLBACK_LABELS = [JStr ''Project not found or private'', JStr ''Access denied'', JStr ''Unknown'']"

definition spec_unique_project_count :: "json list \<Rightarrow> nat" where
  "spec_unique_project_count col = nunique (filter (\<lambda>v. v \<notin> set FALLBACK_LABELS) col)"

text \<open>
  What the service may answer to the lookup of a username: an error status or no
  match (\<open>lookup_finds_nobody\<close>), or an account whose identifier is read
  (\<open>lookup_id\<close>); and an error status for the events of an identifier.
\<close>

definition lookup_finds_nobody :: "server \<Rightarrow> string list \<Rightarrow> string \<Rightarrow> bool" where
  "lookup_finds_nobody srv log name =
     (case srv log (users_url name) of
        None \<Rightarrow> False
      | Some resp \<Rightarrow>
          if ok resp then (case body resp of None \<Rightarrow> False | Some v \<Rightarrow> \<not> truthy v) else True)"

definition lookup_id :: "server \<Rightarrow> string list \<Rightarrow> string \<Rightarrow> json option" where
  "lookup_id srv log name =
     (case srv log (users_url name) of
        None \<Rightarrow> None
      | Some resp \<Rightarrow>
          if ok resp then
            (case body resp of
               None \<Rightarrow> None
             | Some v \<Rightarrow>
                 if truthy v then
                   (case getitem0 v of
                      Inl e \<Rightarrow> None
                    | Inr user \<Rightarrow> (case getitem user ''id'' of Inl e \<Rightarrow> None | Inr uid \<Rightarrow> Some uid))
                 else None)
          else None)"

definition events_fail :: "pylib \<Rightarrow> server \<Rightarrow> string list \<Rightarrow> json \<Rightarrow> bool" where
  "events_fail lib srv log uid =
     (case srv log (events_url lib uid) of None \<Rightarrow> False | Some resp \<Rightarrow> \<not> ok resp)"

text \<open>
  A service that behaves as documented always answers; a successful answer to a
  lookup is a list of account records with an identifier each, to an event request a
  list of well-formed events, to a project request a record.
\<close>

definition good_users_reply :: "response option \<Rightarrow> bool" where
  "good_users_reply r =
     (case r of
        None \<Rightarrow> False
      | Some resp \<Rightarrow>
          if ok resp then
            (case body resp of
               Some (JArr us) \<Rightarrow>
                 list_all (\<lambda>u. case u of JObj kvs \<Rightarrow> map_of kvs ''id'' \<noteq> None | _ \<Rightarrow> False) us
             | _ \<Rightarrow> False)
          else True)"

definition good_events_reply :: "pylib \<Rightarrow> response option \<Rightarrow> bool" where
  "good_events_reply lib r =
     (case r of
        None \<Rightarrow> False
      | Some resp \<Rightarrow>
          if ok resp then
            (case body resp of
               Some (JArr evs) \<Rightarrow> list_all (well_formed_event lib) evs
             | _ \<Rightarrow> False)
          else True)"

definition good_project_reply :: "response option \<Rightarrow> bool" where
  "good_project_reply r =
     (case r of
        None \<Rightarrow> False
      | Some resp \<Rightarrow>
          if ok resp then (case body resp of Some (JObj kvs) \<Rightarrow> True | _ \<Rightarrow> False) else True)"

definition well_behaved :: "pylib \<Rightarrow> server \<Rightarrow> bool" where
  "well_behaved lib srv =
     (\<forall>log. (\<forall>name. good_users_reply (srv log (users_url name)))
          \<and> (\<forall>uid. good_events_reply lib (srv log (events_url lib uid)))
          \<and> (\<forall>pid. good_project_reply (srv log (project_url lib pid))))"

text \<open>
  The lines of a user, given the push events fetched and the requests made so far:
  one line per push event, in the order of the events, each made of the branch and
  the time of its event and of the name its project resolves to at that point of the
  run. The row of a user, at a point of the run: the username, the number of push
  events fetched for it there, and these lines joined by newlines, or the fixed
  sentence when there is no push event.
\<close>

definition spec_lines :: "pylib \<Rightarrow> server \<Rightarrow> push_event list \<Rightarrow> string list \<Rightarrow> string list \<Rightarrow> bool" where
  "spec_lines lib srv evs log lines =
     (length lines = length evs \<and>
      (\<forall>j<length evs. \<exists>pn.
          fst (resolve_project_name lib srv (project (evs ! j))
                 (log @ map (\<lambda>ev. project_url lib (project ev)) (take j evs))) = Inr pn
          \<and> lines ! j = activity_line lib (evs ! j) pn))"

definition spec_row :: "pylib \<Rightarrow> pydate \<Rightarrow> server \<Rightarrow> string \<Rightarrow> string list \<Rightarrow> row \<Rightarrow> bool" where
  "spec_row lib today srv name log r =
     (\<exists>uid evs log1 lines.
         fetch_user_events lib today srv name log = (Inr (uid, evs), log1)
         \<and> spec_lines lib srv evs log1 lines
         \<and> r = \<lparr>username = name, push_events = length evs,
                 activity = (if evs = [] then NO_PUSHES else join_nl lines)\<rparr>)"

section \<open>A worked example: one service, one day\<close>

text \<open>
  The timestamps of the remote service have the shape \<open>2024-05-02T09:15:00.000Z\<close>. On
  that shape (four, two, two, two, two, two digits and one to six digits of fraction)
  \<open>strptime\<close> gives the date and time written, and raises on a date or time that does
  not exist. The examples run the program with this parser; the theorems hold for
  every parser.
\<close>

fun digits_val :: "string \<Rightarrow> nat \<Rightarrow> nat option" where
  "digits_val [] acc = Some acc"
| "digits_val (c # cs) acc =
     (case digit_val c of None \<Rightarrow> None | Some d \<Rightarrow> digits_val cs (10 * acc + d))"

definition strptime_canonical :: "string \<Rightarrow> datetime option" where
  "strptime_canonical s =
     (case s of
        y1 # y2 # y3 # y4 # a # m1 # m2 # b # d1 # d2 # t # h1 # h2 # c # n1 # n2 # d # s1 # s2 # p # rest \<Rightarrow>
          (case (digits_val [y1, y2, y3, y4] 0, digits_val [m1, m2] 0, digits_val [d1, d2] 0,
                 digits_val [h1, h2] 0, digits_val [n1, n2] 0, digits_val [s1, s2] 0,
                 digits_val (butlast rest) 0) of
             (Some y, Some m, Some dd, Some h, Some mi, Some se, Some f) \<Rightarrow>
               if a = CHR ''-'' \<and> b = CHR ''-'' \<and> t = CHR ''T'' \<and> c = CHR '':'' \<and> d = CHR '':''
                  \<and> p = CHR ''.'' \<and> 2 \<le> length rest \<and> length rest \<le> 7 \<and> last rest = CHR ''Z''
                  \<and> 1 \<le> y \<and> 1 \<le> m \<and> m \<le> 12 \<and> 1 \<le> dd \<and> dd \<le> days_in_month y m
                  \<and> h < 24 \<and> mi < 60 \<and> se < 60
               then Some \<lparr>year = y, month = m, day = dd, hour = h, minute = mi, second = se,
                          microsecond = f * 10 ^ (7 - length rest)\<rparr>
               else None
           | _ \<Rightarrow> None)
      | _ \<Rightarrow> None)"

definition lib0 :: pylib where
  "lib0 = \<lparr>strptime = strptime_canonical, repr = (\<lambda>v. ''[...]'')\<rparr>"

definition today0 :: pydate where
  "today0 = \<lparr>year = 2024, month = 5, day = 2\<rparr>"

definition push_json :: "string \<Rightarrow> int \<Rightarrow> string \<Rightarrow> json" where
  "push_json created pid ref =
     JObj [(''action_name'', JStr ''pushed to''), (''created_at'', JStr created),
           (''project_id'', JInt pid), (''push_data'', JObj [(''ref'', JStr ref)])]"

text \<open>
  The events of alice, newest first as the service lists them: a push at 14:45 local
  time, joining a project, a push at 00:30 local time (19:00 of the day before in
  UTC), and a push of the day before.
\<close>

definition alice_events :: "json list" where
  "alice_events =
     [push_json ''2024-05-02T09:15:00.000Z'' 2 ''dev'',
      JObj [(''action_name'', JStr ''joined''), (''created_at'', JStr ''2024-05-02T08:00:00.000Z''),
            (''project_id'', JInt 1)],
      push_json ''2024-05-01T19:00:00.000Z'' 1 ''main'',
      push_json ''2024-05-01T10:00:00.000Z'' 1 ''main'']"

definition alice_pushes :: "push_event list" where
  "alice_pushes =
     [\<lparr>project = JInt 2, branch = JStr ''dev'', time = ''02:45 PM''\<rparr>,
      \<lparr>project = JInt 1, branch = JStr ''main'', time = ''12:30 AM''\<rparr>]"

text \<open>
  The pushes of bob go to the projects 1, 1, 2 and 3; those of carol to 4, 1 and 3, one
  hour apart. The second event of erin carries a timestamp that does not parse.
\<close>

definition bob_events :: "json list" where
  "bob_events =
     [push_json ''2024-05-02T10:00:00.000Z'' 1 ''main'',
      push_json ''2024-05-02T09:00:00.000Z'' 1 ''main'',
      push_json ''2024-05-02T08:00:00.000Z'' 2 ''fix'',
      push_json ''2024-05-02T07:00:00.000Z'' 3 ''main'']"

definition carol_events :: "json list" where
  "carol_events =
     [push_json ''2024-05-02T09:30:00.000Z'' 4 ''main'',
      push_json ''2024-05-02T08:30:00.000Z'' 1 ''main'',
      push_json ''2024-05-02T07:30:00.000Z'' 3 ''main'']"

definition erin_events :: "json list" where
  "erin_events =
     [push_json ''2024-05-02T09:00:00.000Z'' 1 ''main'',
      push_json ''yesterday'' 1 ''main'',
      push_json ''2024-05-02T07:00:00.000Z'' 3 ''main'']"

text \<open>A push of the report date with no push payload, and one whose payload has no ref.\<close>

definition no_payload_event :: json where
  "no_payload_event =
     JObj [(''action_name'', JStr ''pushed to''), (''created_at'', JStr ''2024-05-02T09:15:00.000Z''),
           (''project_id'', JInt 1)]"

definition no_ref_event :: json where
  "no_ref_event =
     JObj [(''action_name'', JStr ''pushed to''), (''created_at'', JStr ''2024-05-02T09:15:00.000Z''),
           (''project_id'', JInt 1), (''push_data'', JObj [(''commit_count'', JInt 1)])]"

definition reply :: "nat \<Rightarrow> json \<Rightarrow> response option" where
  "reply st v = Some \<lparr>status_code = st, body = Some v\<rparr>"

definition user_json :: "int \<Rightarrow> json" where
  "user_json uid = JArr [JObj [(''id'', JInt uid), (''state'', JStr ''active'')]]"

text \<open>
  The service of the examples answers by the URL alone. It knows alice, bob, carol and
  dave; the lookup of ghost finds nobody, and the events of dave fail with status 500.
  Project 1 is alpha, 3 is beta, 4 is gamma, 2 is not found, 5 is forbidden, the
  record of 6 has no name and 7 fails with status 500.
\<close>

definition srv0 :: server where
  "srv0 log url =
     (if url = users_url ''alice'' then reply 200 (user_json 7)
      else if url = users_url ''bob'' then reply 200 (user_json 8)
      else if url = users_url ''carol'' then reply 200 (user_json 9)
      else if url = users_url ''dave'' then reply 200 (user_json 10)
      else if url = users_url ''ghost'' then reply 200 (JArr [])
      else if url = events_url lib0 (JInt 7) then reply 200 (JArr alice_events)
      else if url = events_url lib0 (JInt 8) then reply 200 (JArr bob_events)
      else if url = events_url lib0 (JInt 9) then reply 200 (JArr carol_events)
      else if url = events_url lib0 (JInt 10) then reply 500 (JObj [(''message'', JStr ''500 Internal Server Error'')])
      else if url = project_url lib0 (JInt 1) then reply 200 (JObj [(''id'', JInt 1), (''name'', JStr ''alpha'')])
      else if url = project_url lib0 (JInt 3) then reply 200 (JObj [(''id'', JInt 3), (''name'', JStr ''beta'')])
      else if url = project_url lib0 (JInt 4) then reply 200 (JObj [(''id'', JInt 4), (''name'', JStr ''gamma'')])
      else if url = project_url lib0 (JInt 5) then reply 403 (JObj [(''message'', JStr ''403 Forbidden'')])
      else if url = project_url lib0 (JInt 6) then reply 200 (JObj [(''id'', JInt 6)])
      else if url = project_url lib0 (JInt 7) then reply 500 (JObj [(''message'', JStr ''500 Internal Server Error'')])
      else reply 404 (JObj [(''message'', JStr ''404 Not Found'')]))"

text \<open>
  The same service on a bad day: it also knows erin and yan, the lookup of zoe and the
  events of yan get no answer (a transport failure), and the events of erin hold the
  timestamp that does not parse. For project 8 it answers with a list, for 9 with a
  body that is not JSON, for 10 with a record whose name is null, and for 11 not at
  all.
\<close>

definition srv_faulty :: server where
  "srv_faulty log url =
     (if url = users_url ''erin'' then reply 200 (user_json 11)
      else if url = users_url ''yan'' then reply 200 (user_json 12)
      else if url = users_url ''zoe'' then None
      else if url = events_url lib0 (JInt 11) then reply 200 (JArr erin_events)
      else if url = events_url lib0 (JInt 12) then None
      else if url = project_url lib0 (JInt 8) then reply 200 (JArr [])
      else if url = project_url lib0 (JInt 9) then Some \<lparr>status_code = 200, body = None\<rparr>
      else if url = project_url lib0 (JInt 10) then reply 200 (JObj [(''id'', JInt 10), (''name'', JNull)])
      else if url = project_url lib0 (JInt 11) then None
      else srv0 log url)"

text \<open>What the individual tab shows for alice, for bob and for carol.\<close>

definition alice_summary :: summary where
  "alice_summary =
     \<lparr>activity_data =
        [\<lparr>Project = JStr ''Project not found or private'', Branch = JStr ''dev'', Time = ''02:45 PM''\<rparr>,
         \<lparr>Project = JStr ''alpha'', Branch = JStr ''main'', Time = ''12:30 AM''\<rparr>],
      proj_count = [(JStr ''Project not found or private'', 1), (JStr ''alpha'', 1)],
      time_df =
        [\<lparr>T_Project = JStr ''alpha'', T_Branch = JStr ''main'', T_Time = 30\<rparr>,
         \<lparr>T_Project = JStr ''Project not found or private'', T_Branch = JStr ''dev'', T_Time = 885\<rparr>],
      total = 2, unique_projects = 2, most_active = JStr ''Project not found or private''\<rparr>"

definition bob_summary :: summary where
  "bob_summary =
     \<lparr>activity_data =
        [\<lparr>Project = JStr ''alpha'', Branch = JStr ''main'', Time = ''03:30 PM''\<rparr>,
         \<lparr>Project = JStr ''alpha'', Branch = JStr ''main'', Time = ''02:30 PM''\<rparr>,
         \<lparr>Project = JStr ''Project not found or private'', Branch = JStr ''fix'', Time = ''01:30 PM''\<rparr>,
         \<lparr>Project = JStr ''beta'', Branch = JStr ''main'', Time = ''12:30 PM''\<rparr>],
      proj_count = [(JStr ''alpha'', 2), (JStr ''Project not found or private'', 1), (JStr ''beta'', 1)],
      time_df =
        [\<lparr>T_Project = JStr ''beta'', T_Branch = JStr ''main'', T_Time = 750\<rparr>,
         \<lparr>T_Project = JStr ''Project not found or private'', T_Branch = JStr ''fix'', T_Time = 810\<rparr>,
         \<lparr>T_Project = JStr ''alpha'', T_Branch = JStr ''main'', T_Time = 870\<rparr>,
         \<lparr>T_Project = JStr ''alpha'', T_Branch = JStr ''main'', T_Time = 930\<rparr>],
      total = 4, unique_projects = 3, most_active = JStr ''alpha''\<rparr>"

definition carol_summary :: summary where
  "carol_summary =
     \<lparr>activity_data =
        [\<lparr>Project = JStr ''gamma'', Branch = JStr ''main'', Time = ''03:00 PM''\<rparr>,
         \<lparr>Project = JStr ''alpha'', Branch = JStr ''main'', Time = ''02:00 PM''\<rparr>,
         \<lparr>Project = JStr ''beta'', Branch = JStr ''main'', Time = ''01:00 PM''\<rparr>],
      proj_count = [(JStr ''gamma'', 1), (JStr ''alpha'', 1), (JStr ''beta'', 1)],
      time_df =
        [\<lparr>T_Project = JStr ''beta'', T_Branch = JStr ''main'', T_Time = 780\<rparr>,
         \<lparr>T_Project = JStr ''alpha'', T_Branch = JStr ''main'', T_Time = 840\<rparr>,
         \<lparr>T_Project = JStr ''gamma'', T_Branch = JStr ''main'', T_Time = 900\<rparr>],
      total = 3, unique_projects = 3, most_active = JStr ''alpha''\<rparr>"

section \<open>The event filter\<close>




lemma well_formed_push_of:
  "well_formed_event lib e \<Longrightarrow> \<exists>r. push_of lib today e = Inr r"
  unfolding well_formed_event_def push_of_def
  by (auto split: json.splits option.splits sum.splits)

lemma event_loop_total:
  "\<forall>e\<in>set evs. well_formed_event lib e \<Longrightarrow> \<exists>out. event_loop lib today evs acc = Inr out"
proof (induction evs arbitrary: acc)
  case Nil
  then show ?case by simp
next
  case (Cons e evs)
  then obtain r where r: "push_of lib today e = Inr r"
    using well_formed_push_of[of lib e today] by auto
  from Cons have "\<And>acc. \<exists>out. event_loop lib today evs acc = Inr out" by simp
  with r show ?case by (cases r) simp_all
qed

section \<open>The calendar\<close>

lemma month_cases:
  assumes "1 \<le> m" "m \<le> 12"
  shows "m = 1 \<or> m = 2 \<or> m = 3 \<or> m = 4 \<or> m = 5 \<or> m = 6 \<or> m = 7 \<or> m = 8 \<or> m = 9 \<or> m = 10 \<or> m = 11 \<or> m = (12::nat)"
  using assms by arith



























section \<open>The remote lookups\<close>

lemma requests_get_log: "snd (requests_get srv url log) = log @ [url]"
  by (simp add: requests_get_def split: option.splits)

lemma resolve_project_name_log:
  "snd (resolve_project_name lib srv pid log) = log @ [project_url lib pid]"
  unfolding resolve_project_name_def requests_get_def
  by (simp split: option.splits sum.splits)

text \<open>
  Claim C2, as amended. The program keeps no cache of project names: every call of
  \<open>resolve_project_name\<close> performs exactly one remote lookup, so two calls with the same
  project reference perform two lookups of the same URL.
\<close>

theorem resolve_project_name_twice:
  "snd (resolve_project_name lib srv pid (snd (resolve_project_name lib srv pid log)))
     = log @ [project_url lib pid, project_url lib pid]"
  by (simp add: resolve_project_name_log)

theorem resolve_project_name_twice_witness:
  "snd (resolve_project_name lib0 srv0 (JInt 1) (snd (resolve_project_name lib0 srv0 (JInt 1) [])))
     = [project_url lib0 (JInt 1), project_url lib0 (JInt 1)]"
  using resolve_project_name_twice[of lib0 srv0 "JInt 1" "[]"] by simp

text \<open>
  Resolving project 1 twice asks the service twice, and the run for bob, who pushed
  twice to project 1, asks for it twice.
\<close>

theorem no_cache_counterexample:
  "snd (resolve_project_name lib0 srv0 (JInt 1) (snd (resolve_project_name lib0 srv0 (JInt 1) [])))
     = [''https://code.swecha.org/api/v4/projects/1'', ''https://code.swecha.org/api/v4/projects/1'']
   \<and> count_list (snd (tab1 lib0 today0 srv0 [''bob''] [])) ''https://code.swecha.org/api/v4/projects/1'' = 2"
  by code_simp

text \<open>
  Claim C10, as amended. When the lookup of a project succeeds with a record (a
  dictionary) that has no name, the resolution is the string "Unknown", the label it
  also gives to a failure that is neither 404 nor 403, so the two cannot be told apart
  in the counts or on display. The resolution is a string for every error status and
  for every success whose record has no name or a string for a name. Otherwise it is
  not: a name that is not a string is returned as it is (\<open>None\<close> for null), and the
  call raises when no response arrives (ConnectionError), when the body of a success
  is not JSON (JSONDecodeError) and when it is not a dictionary (AttributeError).
\<close>

theorem resolve_project_name_outcomes:
  "(srv log (project_url lib pid) = None \<longrightarrow>
      fst (resolve_project_name lib srv pid log) = Inl ConnectionError)
   \<and> (srv log (project_url lib pid) = Some resp \<longrightarrow>
        (status_code resp = 404 \<longrightarrow>
           fst (resolve_project_name lib srv pid log) = Inr (JStr ''Project not found or private''))
        \<and> (status_code resp = 403 \<longrightarrow>
           fst (resolve_project_name lib srv pid log) = Inr (JStr ''Access denied''))
        \<and> (\<not> ok resp \<and> status_code resp \<noteq> 404 \<and> status_code resp \<noteq> 403 \<longrightarrow>
           fst (resolve_project_name lib srv pid log) = Inr (JStr ''Unknown''))
        \<and> (ok resp \<and> (\<exists>kvs. body resp = Some (JObj kvs) \<and> map_of kvs ''name'' = None) \<longrightarrow>
           fst (resolve_project_name lib srv pid log) = Inr (JStr ''Unknown''))
        \<and> (\<forall>kvs v. ok resp \<and> body resp = Some (JObj kvs) \<and> map_of kvs ''name'' = Some v \<longrightarrow>
           fst (resolve_project_name lib srv pid log) = Inr v)
        \<and> (ok resp \<and> body resp = None \<longrightarrow>
           fst (resolve_project_name lib srv pid log) = Inl JSONDecodeError)
        \<and> (\<forall>v. ok resp \<and> body resp = Some v \<and> (\<forall>kvs. v \<noteq> JObj kvs) \<longrightarrow>
           fst (resolve_project_name lib srv pid log) = Inl AttributeError))"
proof (intro conjI impI allI)
  assume "srv log (project_url lib pid) = None"
  then show "fst (resolve_project_name lib srv pid log) = Inl ConnectionError"
    by (simp add: resolve_project_name_def requests_get_def)
next
  assume "srv log (project_url lib pid) = Some resp" "status_code resp = 404"
  then show "fst (resolve_project_name lib srv pid log) = Inr (JStr ''Project not found or private'')"
    by (simp add: resolve_project_name_def requests_get_def ok_def)
next
  assume "srv log (project_url lib pid) = Some resp" "status_code resp = 403"
  then show "fst (resolve_project_name lib srv pid log) = Inr (JStr ''Access denied'')"
    by (simp add: resolve_project_name_def requests_get_def ok_def)
next
  assume "srv log (project_url lib pid) = Some resp"
    "\<not> ok resp \<and> status_code resp \<noteq> 404 \<and> status_code resp \<noteq> 403"
  then show "fst (resolve_project_name lib srv pid log) = Inr (JStr ''Unknown'')"
    by (simp add: resolve_project_name_def requests_get_def)
next
  assume "srv log (project_url lib pid) = Some resp"
    "ok resp \<and> (\<exists>kvs. body resp = Some (JObj kvs) \<and> map_of kvs ''name'' = None)"
  then show "fst (resolve_project_name lib srv pid log) = Inr (JStr ''Unknown'')"
    by (auto simp: resolve_project_name_def requests_get_def resp_json_def)
next
  fix kvs v
  assume "srv log (project_url lib pid) = Some resp"
    "ok resp \<and> body resp = Some (JObj kvs) \<and> map_of kvs ''name'' = Some v"
  then show "fst (resolve_project_name lib srv pid log) = Inr v"
    by (simp add: resolve_project_name_def requests_get_def resp_json_def)
next
  assume "srv log (project_url lib pid) = Some resp" "ok resp \<and> body resp = None"
  then show "fst (resolve_project_name lib srv pid log) = Inl JSONDecodeError"
    by (simp add: resolve_project_name_def requests_get_def resp_json_def)
next
  fix v
  assume "srv log (project_url lib pid) = Some resp"
    "ok resp \<and> body resp = Some v \<and> (\<forall>kvs. v \<noteq> JObj kvs)"
  then show "fst (resolve_project_name lib srv pid log) = Inl AttributeError"
    by (cases v) (simp_all add: resolve_project_name_def requests_get_def resp_json_def)
qed

theorem resolve_project_name_outcomes_witness:
  "srv0 [] (project_url lib0 (JInt 6)) = reply 200 (JObj [(''id'', JInt 6)])
   \<and> fst (resolve_project_name lib0 srv0 (JInt 6) []) = Inr (JStr ''Unknown'')
   \<and> srv0 [] (project_url lib0 (JInt 7)) = reply 500 (JObj [(''message'', JStr ''500 Internal Server Error'')])
   \<and> fst (resolve_project_name lib0 srv0 (JInt 7) []) = Inr (JStr ''Unknown'')
   \<and> srv0 [] (project_url lib0 (JInt 1)) = reply 200 (JObj [(''id'', JInt 1), (''name'', JStr ''alpha'')])
   \<and> fst (resolve_project_name lib0 srv0 (JInt 1) []) = Inr (JStr ''alpha'')
   \<and> srv_faulty [] (project_url lib0 (JInt 11)) = None
   \<and> fst (resolve_project_name lib0 srv_faulty (JInt 11) []) = Inl ConnectionError
   \<and> srv_faulty [] (project_url lib0 (JInt 9)) = Some \<lparr>status_code = 200, body = None\<rparr>
   \<and> fst (resolve_project_name lib0 srv_faulty (JInt 9) []) = Inl JSONDecodeError"
proof -
  have a: "srv0 [] (project_url lib0 (JInt 6)) = Some \<lparr>status_code = 200, body = Some (JObj [(''id'', JInt 6)])\<rparr>"
    by code_simp
  have b: "srv0 [] (project_url lib0 (JInt 7)) = Some \<lparr>status_code = 500, body = Some (JObj [(''message'', JStr ''500 Internal Server Error'')])\<rparr>"
    by code_simp
  have c: "srv0 [] (project_url lib0 (JInt 1)) = Some \<lparr>status_code = 200, body = Some (JObj [(''id'', JInt 1), (''name'', JStr ''alpha'')])\<rparr>"
    by code_simp
  have d: "srv_faulty [] (project_url lib0 (JInt 11)) = None" by code_simp
  have e: "srv_faulty [] (project_url lib0 (JInt 9)) = Some \<lparr>status_code = 200, body = None\<rparr>"
    by code_simp
  from resolve_project_name_outcomes[where srv = srv0 and log = "[]" and lib = lib0 and pid = "JInt 6"
        and resp = "\<lparr>status_code = 200, body = Some (JObj [(''id'', JInt 6)])\<rparr>"]
    resolve_project_name_outcomes[where srv = srv0 and log = "[]" and lib = lib0 and pid = "JInt 7"
        and resp = "\<lparr>status_code = 500, body = Some (JObj [(''message'', JStr ''500 Internal Server Error'')])\<rparr>"]
    resolve_project_name_outcomes[where srv = srv0 and log = "[]" and lib = lib0 and pid = "JInt 1"
        and resp = "\<lparr>status_code = 200, body = Some (JObj [(''id'', JInt 1), (''name'', JStr ''alpha'')])\<rparr>"]
    resolve_project_name_outcomes[where srv = srv_faulty and log = "[]" and lib = lib0 and pid = "JInt 11"]
    resolve_project_name_outcomes[where srv = srv_faulty and log = "[]" and lib = lib0 and pid = "JInt 9"
        and resp = "\<lparr>status_code = 200, body = None\<rparr>"]
    a b c d e
  show ?thesis by (simp add: ok_def reply_def)
qed

text \<open>
  A success with a list for a body, with a body that is not JSON and a lookup with no
  answer raise; a record whose name is null resolves to \<open>None\<close>, which is no string.
\<close>

theorem resolution_raises_counterexample:
  "fst (resolve_project_name lib0 srv_faulty (JInt 8) []) = Inl AttributeError
   \<and> fst (resolve_project_name lib0 srv_faulty (JInt 9) []) = Inl JSONDecodeError
   \<and> fst (resolve_project_name lib0 srv_faulty (JInt 10) []) = Inr JNull
   \<and> fst (resolve_project_name lib0 srv_faulty (JInt 11) []) = Inl ConnectionError"
  by code_simp

section \<open>Events the filter cannot read\<close>

lemma event_loop_append:
  "event_loop lib today (xs @ ys) acc =
     (case event_loop lib today xs acc of Inl e \<Rightarrow> Inl e | Inr acc' \<Rightarrow> event_loop lib today ys acc')"
  by (induction xs arbitrary: acc) (auto split: sum.splits option.splits)

lemma event_loop_skip:
  "push_of lib today e = Inr None \<Longrightarrow>
     event_loop lib today (pre @ e # post) acc = event_loop lib today (pre @ post) acc"
  by (simp add: event_loop_append split: sum.splits)

lemma event_loop_raise:
  "push_of lib today e = Inl x \<Longrightarrow> event_loop lib today pre acc = Inr ps \<Longrightarrow>
     event_loop lib today (pre @ e # post) acc = Inl x"
  by (simp add: event_loop_append)

text \<open>
  Claim C6, as amended. For an event whose action is "pushed to" and whose converted
  date is the report date, with a project identifier: when its push payload is a
  dictionary without a ref, the filter accepts the event and its branch is Python's
  \<open>None\<close>, not the empty string; when the event has no push payload the filter raises
  KeyError, and when the payload is null it raises AttributeError.
\<close>

theorem push_of_without_ref:
  assumes "spec_qualifies lib today e" and "getitem e ''project_id'' = Inr pid"
  shows "((\<exists>pd. getitem e ''push_data'' = Inr (JObj pd) \<and> map_of pd ''ref'' = None)
            \<longrightarrow> (\<exists>t. push_of lib today e = Inr (Some \<lparr>project = pid, branch = JNull, time = t\<rparr>)))
       \<and> (getitem e ''push_data'' = Inl KeyError \<longrightarrow> push_of lib today e = Inl KeyError)
       \<and> (getitem e ''push_data'' = Inr JNull \<longrightarrow> push_of lib today e = Inl AttributeError)"
  using assms
  unfolding spec_qualifies_def spec_is_push_def spec_local_date_def push_of_def
  by (auto split: sum.splits json.splits option.splits)

theorem push_of_without_ref_witness:
  "spec_qualifies lib0 today0 no_ref_event \<and> getitem no_ref_event ''project_id'' = Inr (JInt 1)
   \<and> getitem no_ref_event ''push_data'' = Inr (JObj [(''commit_count'', JInt 1)])
   \<and> push_of lib0 today0 no_ref_event = Inr (Some \<lparr>project = JInt 1, branch = JNull, time = ''02:45 PM''\<rparr>)
   \<and> spec_qualifies lib0 today0 no_payload_event \<and> getitem no_payload_event ''project_id'' = Inr (JInt 1)
   \<and> getitem no_payload_event ''push_data'' = Inl KeyError
   \<and> push_of lib0 today0 no_payload_event = Inl KeyError"
proof -
  have q1: "spec_qualifies lib0 today0 no_ref_event" by code_simp
  have p1: "getitem no_ref_event ''project_id'' = Inr (JInt 1)" by code_simp
  have d1: "getitem no_ref_event ''push_data'' = Inr (JObj [(''commit_count'', JInt 1)])" by code_simp
  have r1: "push_of lib0 today0 no_ref_event = Inr (Some \<lparr>project = JInt 1, branch = JNull, time = ''02:45 PM''\<rparr>)"
    by code_simp
  have q2: "spec_qualifies lib0 today0 no_payload_event" by code_simp
  have p2: "getitem no_payload_event ''project_id'' = Inr (JInt 1)" by code_simp
  have d2: "getitem no_payload_event ''push_data'' = Inl KeyError" by code_simp
  from push_of_without_ref[OF q1 p1] push_of_without_ref[OF q2 p2] q1 p1 d1 r1 q2 p2 d2
  show ?thesis by simp
qed

text \<open>
  A push of the report date with no payload stops the loop with KeyError; one whose
  payload has no ref is kept with the branch \<open>None\<close>, which is not the empty string.
\<close>

theorem absent_payload_counterexample:
  "event_loop lib0 today0 [no_payload_event] [] = Inl KeyError
   \<and> event_loop lib0 today0 [no_ref_event] []
       = Inr [\<lparr>project = JInt 1, branch = JNull, time = ''02:45 PM''\<rparr>]
   \<and> JNull \<noteq> JStr ''''"
  by code_simp

text \<open>
  Claim C7, as amended. An event whose timestamp does not parse stops the filter with
  ValueError when its action is "pushed to", whatever follows it in the stream: no
  event of the stream is returned. When its action is another one, the event is
  passed over without its timestamp being read and the rest of the stream is
  processed.
\<close>

theorem event_loop_unparseable:
  assumes "getitem e ''created_at'' = Inr (JStr s)" and "strptime lib s = None"
  shows "(spec_is_push e \<and> event_loop lib today pre [] = Inr ps
            \<longrightarrow> event_loop lib today (pre @ e # post) [] = Inl ValueError)
       \<and> ((\<exists>a. getitem e ''action_name'' = Inr a \<and> a \<noteq> JStr ''pushed to'')
            \<longrightarrow> event_loop lib today (pre @ e # post) [] = event_loop lib today (pre @ post) [])"
proof (intro conjI impI)
  assume "spec_is_push e \<and> event_loop lib today pre [] = Inr ps"
  moreover from this assms have "push_of lib today e = Inl ValueError"
    by (simp add: push_of_def spec_is_push_def)
  ultimately show "event_loop lib today (pre @ e # post) [] = Inl ValueError"
    by (simp add: event_loop_raise)
next
  assume "\<exists>a. getitem e ''action_name'' = Inr a \<and> a \<noteq> JStr ''pushed to''"
  then have "push_of lib today e = Inr None"
    by (auto simp: push_of_def)
  then show "event_loop lib today (pre @ e # post) [] = event_loop lib today (pre @ post) []"
    by (rule event_loop_skip)
qed

theorem event_loop_unparseable_witness:
  "getitem (push_json ''yesterday'' 1 ''main'') ''created_at'' = Inr (JStr ''yesterday'')
   \<and> strptime lib0 ''yesterday'' = None
   \<and> spec_is_push (push_json ''yesterday'' 1 ''main'')
   \<and> event_loop lib0 today0 [push_json ''2024-05-02T09:00:00.000Z'' 1 ''main''] []
        = Inr [\<lparr>project = JInt 1, branch = JStr ''main'', time = ''02:30 PM''\<rparr>]
   \<and> event_loop lib0 today0
        ([push_json ''2024-05-02T09:00:00.000Z'' 1 ''main''] @ push_json ''yesterday'' 1 ''main''
           # [push_json ''2024-05-02T07:00:00.000Z'' 3 ''main'']) [] = Inl ValueError
   \<and> getitem (JObj [(''action_name'', JStr ''joined''), (''created_at'', JStr ''yesterday'')]) ''action_name''
        = Inr (JStr ''joined'')
   \<and> event_loop lib0 today0
        ([] @ JObj [(''action_name'', JStr ''joined''), (''created_at'', JStr ''yesterday'')] # alice_events) []
        = event_loop lib0 today0 ([] @ alice_events) []"
proof -
  let ?bad = "push_json ''yesterday'' 1 ''main''"
  let ?other = "JObj [(''action_name'', JStr ''joined''), (''created_at'', JStr ''yesterday'')]"
  have c: "getitem ?bad ''created_at'' = Inr (JStr ''yesterday'')" by code_simp
  have n: "strptime lib0 ''yesterday'' = None" by code_simp
  have a: "spec_is_push ?bad" by code_simp
  have pre: "event_loop lib0 today0 [push_json ''2024-05-02T09:00:00.000Z'' 1 ''main''] []
        = Inr [\<lparr>project = JInt 1, branch = JStr ''main'', time = ''02:30 PM''\<rparr>]" by code_simp
  have c': "getitem ?other ''created_at'' = Inr (JStr ''yesterday'')" by code_simp
  have a': "getitem ?other ''action_name'' = Inr (JStr ''joined'')" by code_simp
  from event_loop_unparseable[OF c n, of today0 "[push_json ''2024-05-02T09:00:00.000Z'' 1 ''main'']"
      "[\<lparr>project = JInt 1, branch = JStr ''main'', time = ''02:30 PM''\<rparr>]"
      "[push_json ''2024-05-02T07:00:00.000Z'' 3 ''main'']"]
    event_loop_unparseable[OF c' n, of today0 "[]" "[]" alice_events] c n a pre a'
  show ?thesis by simp
qed

text \<open>
  The second event of erin has a timestamp that does not parse: the filter returns no
  event at all, the run for erin stops, and so does a batch that holds erin.
\<close>

theorem unparseable_timestamp_counterexample:
  "event_loop lib0 today0 erin_events [] = Inl ValueError
   \<and> fst (fetch_user_events lib0 today0 srv_faulty ''erin'' []) = Inl ValueError
   \<and> fst (tab1 lib0 today0 srv_faulty [''erin'', ''alice''] []) = Inl ValueError"
  by code_simp

section \<open>The service of the examples behaves as documented\<close>

lemma srv0_well_behaved: "well_behaved lib0 srv0"
  unfolding well_behaved_def
proof (intro allI conjI)
  fix log name
  show "good_users_reply (srv0 log (users_url name))"
    by (simp add: srv0_def good_users_reply_def users_url_def events_url_def project_url_def
        reply_def ok_def user_json_def)
next
  fix log uid
  have ev: "list_all (well_formed_event lib0) alice_events" "list_all (well_formed_event lib0) bob_events"
    "list_all (well_formed_event lib0) carol_events"
    by code_simp+
  show "good_events_reply lib0 (srv0 log (events_url lib0 uid))"
    by (simp add: srv0_def good_events_reply_def users_url_def events_url_def project_url_def
        reply_def ok_def ev)
next
  fix log pid
  show "good_project_reply (srv0 log (project_url lib0 pid))"
    by (simp add: srv0_def good_project_reply_def users_url_def events_url_def project_url_def
        reply_def ok_def)
qed

section \<open>Users that do not resolve and retrievals that fail\<close>

lemma fetch_user_events_nobody:
  "lookup_finds_nobody srv log name \<Longrightarrow>
     fetch_user_events lib today srv name log = (Inr (JNull, []), log @ [users_url name])"
  unfolding lookup_finds_nobody_def fetch_user_events_def requests_get_def resp_json_def
  by (auto split: option.splits if_splits)

lemma fetch_user_events_no_events:
  "lookup_id srv log name = Some uid \<Longrightarrow> events_fail lib srv (log @ [users_url name]) uid \<Longrightarrow>
     fetch_user_events lib today srv name log
       = (Inr (uid, []), log @ [users_url name, events_url lib uid])"
  unfolding lookup_id_def events_fail_def fetch_user_events_def requests_get_def resp_json_def
  by (auto split: option.splits if_splits sum.splits)

lemma fetch_user_events_no_answer:
  "srv log (users_url name) = None \<Longrightarrow>
     fetch_user_events lib today srv name log = (Inl ConnectionError, log @ [users_url name])"
  unfolding fetch_user_events_def requests_get_def by simp

lemma fetch_user_events_events_no_answer:
  "lookup_id srv log name = Some uid \<Longrightarrow> srv (log @ [users_url name]) (events_url lib uid) = None \<Longrightarrow>
     fetch_user_events lib today srv name log
       = (Inl ConnectionError, log @ [users_url name, events_url lib uid])"
  unfolding lookup_id_def fetch_user_events_def requests_get_def resp_json_def
  by (auto split: option.splits if_splits sum.splits)

lemma batch_loop_empty_user:
  "fetch_user_events lib today srv name log = (Inr (uid, []), log1) \<Longrightarrow>
     batch_loop lib today srv (name # names) results log
       = batch_loop lib today srv names
           (results @ [\<lparr>username = name, push_events = 0, activity = NO_PUSHES\<rparr>]) log1"
  by simp

lemma batch_loop_raise:
  "fetch_user_events lib today srv name log = (Inl e, log1) \<Longrightarrow>
     batch_loop lib today srv (name # names) results log = (Inl e, log1)"
  by simp

text \<open>
  Claim C8, as amended. When the account lookup of a username is answered with an
  error status or with no match, the identity is absent, the event list is empty and
  the lookup is the only request made; when the lookup resolves and the event
  retrieval is answered with an error status, the event list is empty. In both cases
  the batch adds the row of that user and goes on with the next one. When a request
  gets no answer at all (a failure at transport level), \<open>requests.get\<close> raises: the
  error leaves \<open>fetch_user_events\<close> and ends the batch.
\<close>

theorem fetch_user_events_failures:
  "(lookup_finds_nobody srv log name \<longrightarrow>
      fetch_user_events lib today srv name log = (Inr (JNull, []), log @ [users_url name])
      \<and> batch_loop lib today srv (name # names) results log
          = batch_loop lib today srv names
              (results @ [\<lparr>username = name, push_events = 0, activity = NO_PUSHES\<rparr>])
              (log @ [users_url name]))
   \<and> (lookup_id srv log name = Some uid \<and> events_fail lib srv (log @ [users_url name]) uid \<longrightarrow>
      fetch_user_events lib today srv name log
        = (Inr (uid, []), log @ [users_url name, events_url lib uid])
      \<and> batch_loop lib today srv (name # names) results log
          = batch_loop lib today srv names
              (results @ [\<lparr>username = name, push_events = 0, activity = NO_PUSHES\<rparr>])
              (log @ [users_url name, events_url lib uid]))
   \<and> (srv log (users_url name) = None
        \<or> (lookup_id srv log name = Some uid \<and> srv (log @ [users_url name]) (events_url lib uid) = None)
      \<longrightarrow> fst (fetch_user_events lib today srv name log) = Inl ConnectionError
        \<and> fst (batch_loop lib today srv (name # names) results log) = Inl ConnectionError)"
proof (intro conjI impI)
  assume a: "lookup_finds_nobody srv log name"
  then show f: "fetch_user_events lib today srv name log = (Inr (JNull, []), log @ [users_url name])"
    by (rule fetch_user_events_nobody)
  show "batch_loop lib today srv (name # names) results log
          = batch_loop lib today srv names
              (results @ [\<lparr>username = name, push_events = 0, activity = NO_PUSHES\<rparr>])
              (log @ [users_url name])"
    by (rule batch_loop_empty_user[OF f])
next
  assume a: "lookup_id srv log name = Some uid \<and> events_fail lib srv (log @ [users_url name]) uid"
  then show f: "fetch_user_events lib today srv name log
        = (Inr (uid, []), log @ [users_url name, events_url lib uid])"
    by (simp add: fetch_user_events_no_events)
  show "batch_loop lib today srv (name # names) results log
          = batch_loop lib today srv names
              (results @ [\<lparr>username = name, push_events = 0, activity = NO_PUSHES\<rparr>])
              (log @ [users_url name, events_url lib uid])"
    by (rule batch_loop_empty_user[OF f])
next
  assume a: "srv log (users_url name) = None
        \<or> (lookup_id srv log name = Some uid \<and> srv (log @ [users_url name]) (events_url lib uid) = None)"
  then obtain log1 where f: "fetch_user_events lib today srv name log = (Inl ConnectionError, log1)"
    using fetch_user_events_no_answer[of srv log name lib today]
      fetch_user_events_events_no_answer[of srv log name uid lib today] by blast
  then show "fst (fetch_user_events lib today srv name log) = Inl ConnectionError" by simp
  from batch_loop_raise[OF f]
  show "fst (batch_loop lib today srv (name # names) results log) = Inl ConnectionError" by simp
qed

theorem fetch_user_events_failures_witness:
  "lookup_finds_nobody srv0 [] ''ghost''
   \<and> fetch_user_events lib0 today0 srv0 ''ghost'' [] = (Inr (JNull, []), [users_url ''ghost''])
   \<and> lookup_id srv0 [] ''dave'' = Some (JInt 10)
   \<and> events_fail lib0 srv0 [users_url ''dave''] (JInt 10)
   \<and> fetch_user_events lib0 today0 srv0 ''dave'' []
        = (Inr (JInt 10, []), [users_url ''dave'', events_url lib0 (JInt 10)])
   \<and> srv_faulty [] (users_url ''zoe'') = None
   \<and> fst (fetch_user_events lib0 today0 srv_faulty ''zoe'' []) = Inl ConnectionError"
proof -
  have g: "lookup_finds_nobody srv0 [] ''ghost''" by code_simp
  have d: "lookup_id srv0 [] ''dave'' = Some (JInt 10)" by code_simp
  have e: "events_fail lib0 srv0 [users_url ''dave''] (JInt 10)" by code_simp
  have z: "srv_faulty [] (users_url ''zoe'') = None" by code_simp
  from fetch_user_events_failures[of srv0 "[]" "''ghost''" lib0 today0 "[]" "[]" "JInt 10"]
    fetch_user_events_failures[of srv0 "[]" "''dave''" lib0 today0 "[]" "[]" "JInt 10"]
    fetch_user_events_failures[of srv_faulty "[]" "''zoe''" lib0 today0 "[]" "[]" "JInt 10"]
    g d e z
  show ?thesis by simp
qed

text \<open>
  The lookup of zoe and the events of yan get no answer: the error is not turned into
  an absent identity or an empty list, and the batch that holds zoe ends without a
  row for alice.
\<close>

theorem transport_failure_counterexample:
  "fetch_user_events lib0 today0 srv_faulty ''zoe'' []
     = (Inl ConnectionError, [''https://code.swecha.org/api/v4/users?username=zoe''])
   \<and> fetch_user_events lib0 today0 srv_faulty ''yan'' []
     = (Inl ConnectionError, [''https://code.swecha.org/api/v4/users?username=yan'',
                              ''https://code.swecha.org/api/v4/users/12/events''])
   \<and> fst (tab1 lib0 today0 srv_faulty [''zoe'', ''alice''] []) = Inl ConnectionError"
  by code_simp

section \<open>The rows of the bulk upload tab\<close>

lemma activity_loop_Inr:
  "activity_loop lib srv evs acc log = (Inr lines, log') \<Longrightarrow>
     \<exists>pns. length pns = length evs \<and> lines = acc @ map2 (activity_line lib) evs pns"
proof (induction evs arbitrary: acc log)
  case Nil
  then show ?case by simp
next
  case (Cons ev evs)
  from Cons.prems obtain pn log1 where
    r: "resolve_project_name lib srv (project ev) log = (Inr pn, log1)" and
    rest: "activity_loop lib srv evs (acc @ [activity_line lib ev pn]) log1 = (Inr lines, log')"
    by (auto split: prod.splits sum.splits)
  from Cons.IH[OF rest] obtain pns where
    "length pns = length evs" "lines = (acc @ [activity_line lib ev pn]) @ map2 (activity_line lib) evs pns"
    by blast
  then have "length (pn # pns) = length (ev # evs)
      \<and> lines = acc @ map2 (activity_line lib) (ev # evs) (pn # pns)"
    by simp
  then show ?case by blast
qed

lemma batch_loop_Inr:
  "batch_loop lib today srv names results log = (Inr rows, log') \<Longrightarrow>
     \<exists>new. rows = results @ new \<and> map username new = names \<and>
       (\<forall>r\<in>set new. \<exists>evs pns. length pns = length evs \<and> push_events r = length evs \<and>
          activity r = (if evs = [] then NO_PUSHES else join_nl (map2 (activity_line lib) evs pns)))"
proof (induction names arbitrary: results log)
  case Nil
  then show ?case by simp
next
  case (Cons name names)
  from Cons.prems obtain uid evs log1 lines log2 where
    f: "fetch_user_events lib today srv name log = (Inr (uid, evs), log1)" and
    a: "activity_loop lib srv evs [] log1 = (Inr lines, log2)" and
    rest: "batch_loop lib today srv names
        (results @ [\<lparr>username = name, push_events = length evs,
                    activity = (if lines \<noteq> [] then join_nl lines else NO_PUSHES)\<rparr>]) log2
        = (Inr rows, log')"
    by (auto split: prod.splits sum.splits)
  let ?row = "\<lparr>username = name, push_events = length evs,
                activity = (if lines \<noteq> [] then join_nl lines else NO_PUSHES)\<rparr>"
  from activity_loop_Inr[OF a] obtain pns where
    pns: "length pns = length evs" "lines = map2 (activity_line lib) evs pns" by auto
  then have "lines = [] \<longleftrightarrow> evs = []" by auto
  with pns have row: "\<exists>evs pns. length pns = length evs \<and> push_events ?row = length evs \<and>
          activity ?row = (if evs = [] then NO_PUSHES else join_nl (map2 (activity_line lib) evs pns))"
    by (intro exI[of _ evs] exI[of _ pns]) auto
  from Cons.IH[OF rest] obtain new where
    new: "rows = (results @ [?row]) @ new" "map username new = names"
      "\<forall>r\<in>set new. \<exists>evs pns. length pns = length evs \<and> push_events r = length evs \<and>
          activity r = (if evs = [] then NO_PUSHES else join_nl (map2 (activity_line lib) evs pns))"
    by blast
  show ?case
  proof (intro exI[of _ "?row # new"] conjI)
    show "rows = results @ ?row # new" using new(1) by simp
    show "map username (?row # new) = name # names" using new(2) by simp
    show "\<forall>r\<in>set (?row # new). \<exists>evs pns. length pns = length evs \<and> push_events r = length evs \<and>
          activity r = (if evs = [] then NO_PUSHES else join_nl (map2 (activity_line lib) evs pns))"
      using row new(3) by (simp del: row.simps)
  qed
qed

lemma fetch_user_events_total:
  assumes "well_behaved lib srv"
  shows "\<exists>uid evs log'. fetch_user_events lib today srv name log = (Inr (uid, evs), log')"
proof -
  from assms have u: "good_users_reply (srv log (users_url name))"
    and e: "\<And>uid. good_events_reply lib (srv (log @ [users_url name]) (events_url lib uid))"
    by (auto simp: well_behaved_def)
  from u obtain resp where resp: "srv log (users_url name) = Some resp"
    by (auto simp: good_users_reply_def split: option.splits)
  show ?thesis
  proof (cases "ok resp")
    case False
    with resp show ?thesis
      by (simp add: fetch_user_events_def requests_get_def)
  next
    case True
    with u resp obtain us where us: "body resp = Some (JArr us)"
      "list_all (\<lambda>u. case u of JObj kvs \<Rightarrow> map_of kvs ''id'' \<noteq> None | _ \<Rightarrow> False) us"
      by (auto simp: good_users_reply_def split: option.splits json.splits)
    show ?thesis
    proof (cases us)
      case Nil
      with resp True us show ?thesis
        by (simp add: fetch_user_events_def requests_get_def resp_json_def)
    next
      case (Cons user rest)
      with us(2) obtain kvs uid where user: "user = JObj kvs" "map_of kvs ''id'' = Some uid"
        by (auto split: json.splits)
      from e[of uid] obtain resp2 where
        resp2: "srv (log @ [users_url name]) (events_url lib uid) = Some resp2"
        by (auto simp: good_events_reply_def split: option.splits)
      show ?thesis
      proof (cases "ok resp2")
        case False
        with resp True us Cons user resp2 show ?thesis
          by (simp add: fetch_user_events_def requests_get_def resp_json_def)
      next
        case ok2: True
        with e[of uid] resp2 obtain evs where evs: "body resp2 = Some (JArr evs)"
          "list_all (well_formed_event lib) evs"
          by (auto simp: good_events_reply_def split: option.splits json.splits)
        from evs(2) obtain out where "event_loop lib today evs [] = Inr out"
          using event_loop_total[of evs lib today "[]"] by (auto simp: list_all_iff)
        with resp True us Cons user resp2 ok2 evs(1) show ?thesis
          by (simp add: fetch_user_events_def requests_get_def resp_json_def)
      qed
    qed
  qed
qed

lemma resolve_project_name_total:
  assumes "well_behaved lib srv"
  shows "\<exists>pn log'. resolve_project_name lib srv pid log = (Inr pn, log')"
proof -
  from assms have "good_project_reply (srv log (project_url lib pid))"
    by (simp add: well_behaved_def)
  then show ?thesis
    unfolding good_project_reply_def resolve_project_name_def requests_get_def resp_json_def
    by (auto split: option.splits json.splits if_splits)
qed

lemma activity_loop_total:
  assumes "well_behaved lib srv"
  shows "\<exists>lines log'. activity_loop lib srv evs acc log = (Inr lines, log')"
proof (induction evs arbitrary: acc log)
  case Nil
  then show ?case by simp
next
  case (Cons ev evs)
  from resolve_project_name_total[OF assms, of "project ev" log] obtain pn log1 where
    "resolve_project_name lib srv (project ev) log = (Inr pn, log1)" by blast
  with Cons.IH[of "acc @ [activity_line lib ev pn]" log1] show ?case by simp
qed

lemma batch_loop_total:
  assumes "well_behaved lib srv"
  shows "\<exists>rows log'. batch_loop lib today srv names results log = (Inr rows, log')"
proof (induction names arbitrary: results log)
  case Nil
  then show ?case by simp
next
  case (Cons name names)
  from fetch_user_events_total[OF assms, of today name log] obtain uid evs log1 where
    f: "fetch_user_events lib today srv name log = (Inr (uid, evs), log1)" by blast
  from activity_loop_total[OF assms, of evs "[]" log1] obtain lines log2 where
    a: "activity_loop lib srv evs [] log1 = (Inr lines, log2)" by blast
  from Cons.IH f a show ?case by simp
qed

lemma activity_loop_lines:
  "activity_loop lib srv evs acc log = (Inr lines, log') \<Longrightarrow>
     \<exists>new. lines = acc @ new \<and> spec_lines lib srv evs log new"
proof (induction evs arbitrary: acc log)
  case Nil
  then show ?case by (simp add: spec_lines_def)
next
  case (Cons ev evs)
  from Cons.prems obtain pn log1 where
    r: "resolve_project_name lib srv (project ev) log = (Inr pn, log1)" and
    rest: "activity_loop lib srv evs (acc @ [activity_line lib ev pn]) log1 = (Inr lines, log')"
    by (auto split: prod.splits sum.splits)
  from r resolve_project_name_log[of lib srv "project ev" log]
  have log1: "log1 = log @ [project_url lib (project ev)]" by simp
  from Cons.IH[OF rest] obtain new where
    new: "lines = (acc @ [activity_line lib ev pn]) @ new" "spec_lines lib srv evs log1 new"
    by blast
  have "spec_lines lib srv (ev # evs) log (activity_line lib ev pn # new)"
    unfolding spec_lines_def
  proof (intro conjI allI impI)
    from new(2) show "length (activity_line lib ev pn # new) = length (ev # evs)"
      by (simp add: spec_lines_def)
    fix j assume j: "j < length (ev # evs)"
    show "\<exists>pn'. fst (resolve_project_name lib srv (project ((ev # evs) ! j))
                 (log @ map (\<lambda>ev. project_url lib (project ev)) (take j (ev # evs)))) = Inr pn'
          \<and> (activity_line lib ev pn # new) ! j = activity_line lib ((ev # evs) ! j) pn'"
    proof (cases j)
      case 0
      with r show ?thesis by simp
    next
      case (Suc k)
      with j have "k < length evs" by simp
      with new(2) obtain pn' where
        "fst (resolve_project_name lib srv (project (evs ! k))
                 (log1 @ map (\<lambda>ev. project_url lib (project ev)) (take k evs))) = Inr pn'"
        "new ! k = activity_line lib (evs ! k) pn'"
        by (auto simp: spec_lines_def)
      with Suc log1 show ?thesis by simp
    qed
  qed
  with new(1) show ?case by (intro exI[of _ "activity_line lib ev pn # new"]) simp
qed

lemma spec_lines_empty: "spec_lines lib srv evs log lines \<Longrightarrow> lines = [] \<longleftrightarrow> evs = []"
  by (auto simp: spec_lines_def)

lemma batch_loop_rows:
  "batch_loop lib today srv names results log = (Inr rows, log') \<Longrightarrow>
     \<exists>new. rows = results @ new \<and> length new = length names \<and>
       (\<forall>i<length names.
          spec_row lib today srv (names ! i)
            (snd (batch_loop lib today srv (take i names) results log)) (new ! i))"
proof (induction names arbitrary: results log)
  case Nil
  then show ?case by simp
next
  case (Cons name names)
  from Cons.prems obtain uid evs log1 lines log2 where
    f: "fetch_user_events lib today srv name log = (Inr (uid, evs), log1)" and
    a: "activity_loop lib srv evs [] log1 = (Inr lines, log2)" and
    rest: "batch_loop lib today srv names
        (results @ [\<lparr>username = name, push_events = length evs,
                    activity = (if lines \<noteq> [] then join_nl lines else NO_PUSHES)\<rparr>]) log2
        = (Inr rows, log')"
    by (auto split: prod.splits sum.splits)
  define r where "r = \<lparr>username = name, push_events = length evs,
                    activity = (if lines \<noteq> [] then join_nl lines else NO_PUSHES)\<rparr>"
  from activity_loop_lines[OF a] have sl: "spec_lines lib srv evs log1 lines" by simp
  from spec_lines_empty[OF sl]
  have r': "r = \<lparr>username = name, push_events = length evs,
                 activity = (if evs = [] then NO_PUSHES else join_nl lines)\<rparr>"
    by (simp add: r_def)
  from f sl r' have row0: "spec_row lib today srv name log r"
    unfolding spec_row_def by blast
  from Cons.IH[OF rest[folded r_def]] obtain new where
    new: "rows = (results @ [r]) @ new" "length new = length names"
      "\<forall>i<length names. spec_row lib today srv (names ! i)
            (snd (batch_loop lib today srv (take i names) (results @ [r]) log2)) (new ! i)"
    by blast
  have step: "batch_loop lib today srv (name # ns) results log
                = batch_loop lib today srv ns (results @ [r]) log2" for ns
    using f a by (simp add: r_def)
  have "\<forall>i<length (name # names).
          spec_row lib today srv ((name # names) ! i)
            (snd (batch_loop lib today srv (take i (name # names)) results log)) ((r # new) ! i)"
  proof (intro allI impI)
    fix i assume i: "i < length (name # names)"
    show "spec_row lib today srv ((name # names) ! i)
            (snd (batch_loop lib today srv (take i (name # names)) results log)) ((r # new) ! i)"
    proof (cases i)
      case 0
      with row0 show ?thesis by simp
    next
      case (Suc k)
      with i have "k < length names" by simp
      with new(3) have "spec_row lib today srv (names ! k)
            (snd (batch_loop lib today srv (take k names) (results @ [r]) log2)) (new ! k)"
        by blast
      with Suc step[of "take k names"] show ?thesis by simp
    qed
  qed
  with new(1,2) show ?case by (intro exI[of _ "r # new"]) simp
qed

lemma spec_row_username: "spec_row lib today srv name log r \<Longrightarrow> username r = name"
  by (auto simp: spec_row_def)

text \<open>
  Claim C9, as amended. On every batch of usernames on which the run completes, the
  table has exactly one row per username, in the order of the batch, and the row of a
  username carries that username, the number of push events fetched for it and the
  lines \<open>Pushed to '<branch>' in '<project>' at <time>\<close>, one per fetched event in the
  order of the events and with the name resolved for the project of that event,
  joined by newlines, or the fixed sentence "No push events today." when no push
  event was fetched. The run completes whenever the service answers every request as
  documented. A username whose lookup finds nobody (no match, or an error status)
  gets its own row, with zero push events and the fixed sentence; the rows assembled
  before it stay as they are and the batch goes on with the usernames after it. A
  request that gets no answer, or a response or an event that cannot be read, for any
  user of the batch ends the run with no table at all.
\<close>

theorem tab1_rows:
  "(tab1 lib today srv names log = (Inr rows, log') \<longrightarrow>
      length rows = length names \<and> map username rows = names
      \<and> (\<forall>i<length names.
            spec_row lib today srv (names ! i) (snd (tab1 lib today srv (take i names) log)) (rows ! i)))
   \<and> (well_behaved lib srv \<longrightarrow> (\<exists>rows log'. tab1 lib today srv names log = (Inr rows, log')))
   \<and> (lookup_finds_nobody srv log name \<longrightarrow>
        batch_loop lib today srv (name # names) results log
          = batch_loop lib today srv names
              (results @ [\<lparr>username = name, push_events = 0, activity = NO_PUSHES\<rparr>])
              (log @ [users_url name]))
   \<and> (batch_loop lib today srv names results log = (Inr rows, log') \<longrightarrow>
        take (length results) rows = results)
   \<and> (fst (fetch_user_events lib today srv name log) = Inl e \<longrightarrow>
        fst (batch_loop lib today srv (name # names) results log) = Inl e)"
proof (intro conjI impI)
  assume run: "tab1 lib today srv names log = (Inr rows, log')"
  from batch_loop_rows[OF run[unfolded tab1_def]] have
    len: "length rows = length names" and
    rows: "\<forall>i<length names. spec_row lib today srv (names ! i)
            (snd (batch_loop lib today srv (take i names) [] log)) (rows ! i)"
    by auto
  from len show "length rows = length names" .
  from rows show "\<forall>i<length names.
            spec_row lib today srv (names ! i) (snd (tab1 lib today srv (take i names) log)) (rows ! i)"
    by (simp add: tab1_def)
  show "map username rows = names"
  proof (rule nth_equalityI)
    show "length (map username rows) = length names" using len by simp
    fix i assume "i < length (map username rows)"
    with len rows show "map username rows ! i = names ! i"
      by (auto dest: spec_row_username)
  qed
next
  assume "well_behaved lib srv"
  then show "\<exists>rows log'. tab1 lib today srv names log = (Inr rows, log')"
    unfolding tab1_def by (rule batch_loop_total)
next
  assume "lookup_finds_nobody srv log name"
  then have "fetch_user_events lib today srv name log = (Inr (JNull, []), log @ [users_url name])"
    by (rule fetch_user_events_nobody)
  then show "batch_loop lib today srv (name # names) results log
          = batch_loop lib today srv names
              (results @ [\<lparr>username = name, push_events = 0, activity = NO_PUSHES\<rparr>])
              (log @ [users_url name])"
    by (rule batch_loop_empty_user)
next
  assume "batch_loop lib today srv names results log = (Inr rows, log')"
  from batch_loop_Inr[OF this] show "take (length results) rows = results" by auto
next
  assume "fst (fetch_user_events lib today srv name log) = Inl e"
  then obtain log1 where "fetch_user_events lib today srv name log = (Inl e, log1)"
    by (cases "fetch_user_events lib today srv name log") auto
  from batch_loop_raise[OF this]
  show "fst (batch_loop lib today srv (name # names) results log) = Inl e" by simp
qed

theorem tab1_rows_witness:
  "tab1 lib0 today0 srv0 [''alice'', ''ghost''] []
     = (Inr [\<lparr>username = ''alice'', push_events = 2,
              activity = ''Pushed to 'dev' in 'Project not found or private' at 02:45 PM\<newline>Pushed to 'main' in 'alpha' at 12:30 AM''\<rparr>,
             \<lparr>username = ''ghost'', push_events = 0, activity = ''No push events today.''\<rparr>],
        [users_url ''alice'', events_url lib0 (JInt 7), project_url lib0 (JInt 2),
         project_url lib0 (JInt 1), users_url ''ghost''])
   \<and> spec_row lib0 today0 srv0 ''alice'' []
        \<lparr>username = ''alice'', push_events = 2,
         activity = ''Pushed to 'dev' in 'Project not found or private' at 02:45 PM\<newline>Pushed to 'main' in 'alpha' at 12:30 AM''\<rparr>
   \<and> well_behaved lib0 srv0
   \<and> lookup_finds_nobody srv0 [] ''ghost''
   \<and> batch_loop lib0 today0 srv0 [''ghost'', ''alice''] [] []
        = batch_loop lib0 today0 srv0 [''alice'']
            [\<lparr>username = ''ghost'', push_events = 0, activity = NO_PUSHES\<rparr>] [users_url ''ghost'']
   \<and> fst (fetch_user_events lib0 today0 srv_faulty ''zoe'' []) = Inl ConnectionError
   \<and> fst (batch_loop lib0 today0 srv_faulty [''zoe'', ''alice''] [] []) = Inl ConnectionError"
proof -
  let ?rows = "[\<lparr>username = ''alice'', push_events = 2,
              activity = ''Pushed to 'dev' in 'Project not found or private' at 02:45 PM\<newline>Pushed to 'main' in 'alpha' at 12:30 AM''\<rparr>,
             \<lparr>username = ''ghost'', push_events = 0, activity = ''No push events today.''\<rparr>]"
  let ?log = "[users_url ''alice'', events_url lib0 (JInt 7), project_url lib0 (JInt 2),
         project_url lib0 (JInt 1), users_url ''ghost'']"
  have run: "tab1 lib0 today0 srv0 [''alice'', ''ghost''] [] = (Inr ?rows, ?log)"
    by code_simp
  have g: "lookup_finds_nobody srv0 [] ''ghost''" by code_simp
  have z: "fst (fetch_user_events lib0 today0 srv_faulty ''zoe'' []) = Inl ConnectionError"
    by code_simp
  note t1 = tab1_rows[of lib0 today0 srv0 "[''alice'', ''ghost'']" "[]" ?rows ?log "''ghost''" "[]"]
  from t1 run have "\<forall>i<length [''alice'', ''ghost''].
      spec_row lib0 today0 srv0 ([''alice'', ''ghost''] ! i)
        (snd (tab1 lib0 today0 srv0 (take i [''alice'', ''ghost'']) [])) (?rows ! i)"
    by blast
  then have "spec_row lib0 today0 srv0 ([''alice'', ''ghost''] ! 0)
        (snd (tab1 lib0 today0 srv0 (take 0 [''alice'', ''ghost'']) [])) (?rows ! 0)"
    by (rule allE[where x = 0]) simp
  then have a: "spec_row lib0 today0 srv0 ''alice'' [] (?rows ! 0)" by (simp add: tab1_def)
  from tab1_rows[of lib0 today0 srv0 "[''alice'']" "[]" ?rows ?log "''ghost''" "[]"]
    tab1_rows[of lib0 today0 srv_faulty "[''alice'']" "[]" ?rows ?log "''zoe''" "[]" ConnectionError]
    run g z a srv0_well_behaved
  show ?thesis by simp
qed

text \<open>
  The lookup of zoe gets no answer: the batch of alice, zoe and bob gives no table,
  not even the row of alice, whose requests were made.
\<close>

theorem no_table_counterexample:
  "tab1 lib0 today0 srv_faulty [''alice'', ''zoe'', ''bob''] []
     = (Inl ConnectionError,
        [''https://code.swecha.org/api/v4/users?username=alice'',
         ''https://code.swecha.org/api/v4/users/7/events'',
         ''https://code.swecha.org/api/v4/projects/2'',
         ''https://code.swecha.org/api/v4/projects/1'',
         ''https://code.swecha.org/api/v4/users?username=zoe''])"
  by code_simp

section \<open>The summary of the individual tab\<close>

lemma data_loop_Inr:
  "data_loop lib srv evs acc log = (Inr data, log') \<Longrightarrow>
     \<exists>pns. length pns = length evs \<and>
       data = acc @ map2 (\<lambda>ev pn. \<lparr>Project = pn, Branch = branch ev, Time = time ev\<rparr>) evs pns"
proof (induction evs arbitrary: acc log)
  case Nil
  then show ?case by simp
next
  case (Cons ev evs)
  from Cons.prems obtain pn log1 where
    rest: "data_loop lib srv evs (acc @ [\<lparr>Project = pn, Branch = branch ev, Time = time ev\<rparr>]) log1
             = (Inr data, log')"
    by (auto split: prod.splits sum.splits)
  from Cons.IH[OF rest] obtain pns where
    "length pns = length evs"
    "data = (acc @ [\<lparr>Project = pn, Branch = branch ev, Time = time ev\<rparr>])
              @ map2 (\<lambda>ev pn. \<lparr>Project = pn, Branch = branch ev, Time = time ev\<rparr>) evs pns"
    by blast
  then have "length (pn # pns) = length (ev # evs) \<and>
      data = acc @ map2 (\<lambda>ev pn. \<lparr>Project = pn, Branch = branch ev, Time = time ev\<rparr>) (ev # evs) (pn # pns)"
    by simp
  then show ?case by blast
qed

lemma data_loop_columns:
  assumes "data_loop lib srv evs [] log = (Inr data, log')"
  shows "map Time data = map time evs" and "map Branch data = map branch evs"
proof -
  from data_loop_Inr[OF assms] obtain pns where
    pns: "length pns = length evs"
      "data = map2 (\<lambda>ev pn. \<lparr>Project = pn, Branch = branch ev, Time = time ev\<rparr>) evs pns"
    by auto
  have "map Time data = map (\<lambda>(ev, pn). time ev) (zip evs pns)"
    unfolding pns(2) by (simp add: case_prod_unfold)
  also have "\<dots> = map time (map fst (zip evs pns))" by (simp add: case_prod_unfold)
  finally show "map Time data = map time evs" using pns(1) by simp
  have "map Branch data = map (\<lambda>(ev, pn). branch ev) (zip evs pns)"
    unfolding pns(2) by (simp add: case_prod_unfold)
  also have "\<dots> = map branch (map fst (zip evs pns))" by (simp add: case_prod_unfold)
  finally show "map Branch data = map branch evs" using pns(1) by simp
qed

lemma tab2_summary:
  assumes "tab2 lib today srv name log = (Inr (Activity_summary s), log')"
  shows "\<exists>uid evs log1 timeline.
           fetch_user_events lib today srv name log = (Inr (uid, evs), log1)
           \<and> data_loop lib srv evs [] log1 = (Inr (activity_data s), log')
           \<and> Counter (map Project (activity_data s)) = Inr (proj_count s)
           \<and> to_timed (activity_data s) = Inr timeline
           \<and> time_df s = sort_values timeline
           \<and> mode0 (map Project (activity_data s)) = Inr (most_active s)
           \<and> total s = length evs
           \<and> unique_projects s = nunique (map Project (activity_data s))"
  using assms unfolding tab2_def
  by (auto split: if_splits prod.splits sum.splits)

lemma to_timed_columns:
  "to_timed ds = Inr ts \<Longrightarrow>
     map (\<lambda>t. (T_Project t, T_Branch t, T_Time t)) ts
       = map (\<lambda>d. (Project d, Branch d, clock_minutes (Time d))) ds"
  by (induction ds arbitrary: ts) (auto simp: clock_minutes_def split: option.splits sum.splits)

text \<open>
  The time column of the timeline never fails to parse: a string written by
  \<open>strftime\<close> reads back as the minutes of its time of day.
\<close>

lemma digit_val_nth:
  assumes "d < 10"
  shows "digit_val (''0123456789'' ! d) = Some d"
proof -
  from assms have "d = 0 \<or> d = 1 \<or> d = 2 \<or> d = 3 \<or> d = 4 \<or> d = 5 \<or> d = 6 \<or> d = 7 \<or> d = 8 \<or> d = 9"
    by presburger
  then show ?thesis by (elim disjE) (simp_all add: digit_val_def)
qed

lemma parse_two_digits:
  assumes "n < 100"
  shows "digit_val (two_digits n ! 0) = Some (n div 10)" and "digit_val (two_digits n ! 1) = Some (n mod 10)"
proof -
  from assms have "n div 10 mod 10 = n div 10" by simp
  then show "digit_val (two_digits n ! 0) = Some (n div 10)"
    using digit_val_nth[of "n div 10 mod 10"] by (simp add: two_digits_def)
  show "digit_val (two_digits n ! 1) = Some (n mod 10)"
    using digit_val_nth[of "n mod 10"] by (simp add: two_digits_def)
qed

lemma two_digits_shape: "two_digits n = [two_digits n ! 0, two_digits n ! 1]"
  by (simp add: two_digits_def)

lemma to_datetime_shape:
  assumes "digit_val h1 = Some x1" "digit_val h2 = Some x2" "digit_val m1 = Some y1" "digit_val m2 = Some y2"
    and "1 \<le> 10 * x1 + x2" "10 * x1 + x2 \<le> 12" "10 * y1 + y2 < 60" "a = CHR ''A'' \<or> a = CHR ''P''"
  shows "to_datetime_IMp ([h1, h2] @ '':'' @ [m1, m2] @ '' '' @ [a, CHR ''M''])
           = Some (((10 * x1 + x2) mod 12 + (if a = CHR ''P'' then 12 else 0)) * 60 + (10 * y1 + y2))"
  using assms by simp

lemma to_datetime_strftime:
  assumes "hour dt < 24" and "minute dt < 60"
  shows "to_datetime_IMp (strftime_IMp dt) = Some (hour dt * 60 + minute dt)"
proof -
  define h where "h = (if hour dt mod 12 = 0 then 12 else hour dt mod 12)"
  define a where "a = (if hour dt < 12 then CHR ''A'' else CHR ''P'')"
  have h: "1 \<le> h" "h \<le> 12" "h < 100" by (auto simp: h_def)
  have st: "strftime_IMp dt = [two_digits h ! 0, two_digits h ! 1] @ '':'' @
              [two_digits (minute dt) ! 0, two_digits (minute dt) ! 1] @ '' '' @ [a, CHR ''M'']"
    unfolding strftime_IMp_def h_def[symmetric] a_def
    using two_digits_shape[of h] two_digits_shape[of "minute dt"] by simp
  have m: "minute dt < 100" using assms(2) by simp
  have "to_datetime_IMp (strftime_IMp dt)
          = Some (((10 * (h div 10) + h mod 10) mod 12 + (if a = CHR ''P'' then 12 else 0)) * 60
                  + (10 * (minute dt div 10) + minute dt mod 10))"
    unfolding st
    by (rule to_datetime_shape[OF parse_two_digits[OF h(3)] parse_two_digits[OF m]])
       (use h assms(2) in \<open>auto simp: a_def\<close>)
  also have "10 * (h div 10) + h mod 10 = h" by simp
  also have "10 * (minute dt div 10) + minute dt mod 10 = minute dt" by simp
  also have "(h mod 12 + (if a = CHR ''P'' then 12 else 0)) * 60 + minute dt = hour dt * 60 + minute dt"
    using assms(1) by (auto simp: h_def a_def mod_if)
  finally show ?thesis .
qed

text \<open>
  Claim C3, as amended. The entries of the activity summary are in the order of the
  filtered push events, which is the order of the remote event stream: the program
  does not sort them. What it sorts is the copy made for the timeline, which is in
  ascending order of the time of day and holds the same entries; sorting that copy
  again leaves its time column as it is.
\<close>

theorem tab2_entry_order:
  assumes "tab2 lib today srv name log = (Inr (Activity_summary s), log')"
  shows "\<exists>uid evs log1.
           fetch_user_events lib today srv name log = (Inr (uid, evs), log1)
           \<and> map Time (activity_data s) = map time evs
           \<and> map Branch (activity_data s) = map branch evs
           \<and> sorted (map T_Time (time_df s))
           \<and> mset (map (\<lambda>t. (T_Project t, T_Branch t, T_Time t)) (time_df s))
               = mset (map (\<lambda>d. (Project d, Branch d, clock_minutes (Time d))) (activity_data s))
           \<and> map T_Time (sort_values (time_df s)) = map T_Time (time_df s)"
proof -
  from tab2_summary[OF assms] obtain uid evs log1 timeline where
    f: "fetch_user_events lib today srv name log = (Inr (uid, evs), log1)" and
    d: "data_loop lib srv evs [] log1 = (Inr (activity_data s), log')" and
    t: "to_timed (activity_data s) = Inr timeline" and
    srt: "time_df s = sort_values timeline"
    by blast
  have sorted: "sorted (map T_Time (time_df s))"
    unfolding srt sort_values_def by (rule sorted_sort_key)
  note cols = to_timed_columns[OF t]
  have "mset (map (\<lambda>t. (T_Project t, T_Branch t, T_Time t)) (time_df s))
          = mset (map (\<lambda>t. (T_Project t, T_Branch t, T_Time t)) timeline)"
    unfolding srt sort_values_def by simp
  with cols have perm: "mset (map (\<lambda>t. (T_Project t, T_Branch t, T_Time t)) (time_df s))
               = mset (map (\<lambda>d. (Project d, Branch d, clock_minutes (Time d))) (activity_data s))"
    by simp
  from sorted have again: "map T_Time (sort_values (time_df s)) = map T_Time (time_df s)"
    unfolding sort_values_def by (simp add: sort_key_id_if_sorted)
  from f data_loop_columns[OF d] sorted perm again show ?thesis by blast
qed

theorem tab2_entry_order_witness:
  "tab2 lib0 today0 srv0 ''alice'' []
     = (Inr (Activity_summary alice_summary),
        [users_url ''alice'', events_url lib0 (JInt 7), project_url lib0 (JInt 2), project_url lib0 (JInt 1)])
   \<and> fetch_user_events lib0 today0 srv0 ''alice'' []
     = (Inr (JInt 7, alice_pushes), [users_url ''alice'', events_url lib0 (JInt 7)])
   \<and> map Time (activity_data alice_summary) = map time alice_pushes
   \<and> sorted (map T_Time (time_df alice_summary))"
proof -
  have run: "tab2 lib0 today0 srv0 ''alice'' []
     = (Inr (Activity_summary alice_summary),
        [users_url ''alice'', events_url lib0 (JInt 7), project_url lib0 (JInt 2), project_url lib0 (JInt 1)])"
    by code_simp
  have f: "fetch_user_events lib0 today0 srv0 ''alice'' []
     = (Inr (JInt 7, alice_pushes), [users_url ''alice'', events_url lib0 (JInt 7)])"
    by code_simp
  from tab2_entry_order[OF run] f show ?thesis using run by auto
qed

text \<open>
  The entries of alice are in the order of the event stream, newest first: 02:45 PM
  comes before 12:30 AM.
\<close>

theorem entries_unsorted_counterexample:
  "fst (tab2 lib0 today0 srv0 ''alice'' []) = Inr (Activity_summary alice_summary)
   \<and> map Time (activity_data alice_summary) = [''02:45 PM'', ''12:30 AM'']
   \<and> \<not> spec_sorted_by_local_time (activity_data alice_summary)"
  by code_simp

section \<open>Counting projects\<close>

lemma nunique_card: "nunique col = card (set col - {JNull})"
proof -
  have "set (filter (\<lambda>v. v \<noteq> JNull) col) = set col - {JNull}" by auto
  then show ?thesis by (simp add: nunique_def length_remdups_card_conv)
qed

lemma nunique_fallbacks:
  "nunique col = spec_unique_project_count col + card (set col \<inter> set FALLBACK_LABELS)"
proof -
  let ?F = "set FALLBACK_LABELS"
  have nn: "JNull \<notin> ?F" by (simp add: FALLBACK_LABELS_def)
  have split: "set col - {JNull} = (set (filter (\<lambda>v. v \<notin> ?F) col) - {JNull}) \<union> (set col \<inter> ?F)"
    using nn by auto
  have disj: "(set (filter (\<lambda>v. v \<notin> ?F) col) - {JNull}) \<inter> (set col \<inter> ?F) = {}" by auto
  have "card (set col - {JNull})
          = card (set (filter (\<lambda>v. v \<notin> ?F) col) - {JNull}) + card (set col \<inter> ?F)"
    by (subst split, rule card_Un_disjoint) (use disj in auto)
  then show ?thesis
    by (simp add: nunique_card spec_unique_project_count_def)
qed

lemma counter_add_keys:
  "map fst (counter_add x kvs) = (if x \<in> set (map fst kvs) then map fst kvs else map fst kvs @ [x])"
  by (induction kvs) force+

lemma counter_keys:
  "distinct (map fst acc) \<Longrightarrow>
     distinct (map fst (fold counter_add xs acc))
     \<and> set (map fst (fold counter_add xs acc)) = set (map fst acc) \<union> set xs"
proof (induction xs arbitrary: acc)
  case Nil
  then show ?case by simp
next
  case (Cons x xs)
  have "distinct (map fst (counter_add x acc))"
    using Cons.prems by (simp add: counter_add_keys)
  from Cons.IH[OF this] show ?case
    by (auto simp: counter_add_keys split: if_splits)
qed

lemma Counter_buckets:
  assumes "Counter col = Inr counts"
  shows "length (filter (\<lambda>kv. fst kv \<noteq> JNull) counts) = nunique col"
proof -
  from assms have c: "counts = fold counter_add col []"
    by (simp add: Counter_def split: if_splits)
  from counter_keys[of "[]" col] c have k: "distinct (map fst counts)" "set (map fst counts) = set col"
    by auto
  have "length (filter (\<lambda>kv. fst kv \<noteq> JNull) counts) = length (filter (\<lambda>v. v \<noteq> JNull) (map fst counts))"
    by (simp add: filter_map comp_def)
  also have "\<dots> = card (set (filter (\<lambda>v. v \<noteq> JNull) (map fst counts)))"
  proof -
    from k(1) have "distinct (filter (\<lambda>v. v \<noteq> JNull) (map fst counts))" by simp
    from distinct_card[OF this] show ?thesis by simp
  qed
  also have "set (filter (\<lambda>v. v \<noteq> JNull) (map fst counts)) = set col - {JNull}"
    using k(2) by auto
  finally show ?thesis by (simp add: nunique_card)
qed

text \<open>
  Claim C4, as amended. The number of unique projects is the number of distinct values
  of the Project column, \<open>None\<close> left out, which is the number of buckets of the project
  counts (the bucket of \<open>None\<close> aside): the labels "Project not found or private",
  "Access denied" and "Unknown" count as one project each when they occur, on top of
  the distinct names that are no such label.
\<close>

theorem unique_projects_counts_labels:
  assumes "tab2 lib today srv name log = (Inr (Activity_summary s), log')"
  shows "unique_projects s = card (set (map Project (activity_data s)) - {JNull})
       \<and> unique_projects s = length (filter (\<lambda>kv. fst kv \<noteq> JNull) (proj_count s))
       \<and> unique_projects s = spec_unique_project_count (map Project (activity_data s))
            + card (set (map Project (activity_data s)) \<inter> set FALLBACK_LABELS)"
proof -
  from tab2_summary[OF assms] have
    u: "unique_projects s = nunique (map Project (activity_data s))" and
    c: "Counter (map Project (activity_data s)) = Inr (proj_count s)"
    by auto
  from u nunique_card[of "map Project (activity_data s)"] Counter_buckets[OF c]
    nunique_fallbacks[of "map Project (activity_data s)"]
  show ?thesis by simp
qed

theorem unique_projects_counts_labels_witness:
  "tab2 lib0 today0 srv0 ''bob'' []
     = (Inr (Activity_summary bob_summary),
        [users_url ''bob'', events_url lib0 (JInt 8), project_url lib0 (JInt 1),
         project_url lib0 (JInt 1), project_url lib0 (JInt 2), project_url lib0 (JInt 3)])
   \<and> unique_projects bob_summary = length (filter (\<lambda>kv. fst kv \<noteq> JNull) (proj_count bob_summary))
   \<and> unique_projects bob_summary = spec_unique_project_count (map Project (activity_data bob_summary))
        + card (set (map Project (activity_data bob_summary)) \<inter> set FALLBACK_LABELS)"
proof -
  have run: "tab2 lib0 today0 srv0 ''bob'' []
     = (Inr (Activity_summary bob_summary),
        [users_url ''bob'', events_url lib0 (JInt 8), project_url lib0 (JInt 1),
         project_url lib0 (JInt 1), project_url lib0 (JInt 2), project_url lib0 (JInt 3)])"
    by code_simp
  from unique_projects_counts_labels[OF run] run show ?thesis by simp
qed

text \<open>
  The pushes of bob resolve to alpha, alpha, the not-found label and beta: two names
  that are resolved, and a count of three.
\<close>

theorem unique_projects_counterexample:
  "fst (tab2 lib0 today0 srv0 ''bob'' []) = Inr (Activity_summary bob_summary)
   \<and> map Project (activity_data bob_summary)
       = [JStr ''alpha'', JStr ''alpha'', JStr ''Project not found or private'', JStr ''beta'']
   \<and> map_option status_code (srv0 [] (project_url lib0 (JInt 2))) = Some 404
   \<and> spec_unique_project_count (map Project (activity_data bob_summary)) = 2
   \<and> unique_projects bob_summary = 3"
  by code_simp

section \<open>The most active project\<close>

lemma fold_max_init: "(a::nat) \<le> fold max xs a"
proof (induction xs arbitrary: a)
  case Nil
  then show ?case by simp
next
  case (Cons y ys)
  have "a \<le> max y a" by simp
  also have "\<dots> \<le> fold max ys (max y a)" by (rule Cons.IH)
  finally show ?case by simp
qed

lemma fold_max_ge: "x \<in> set xs \<Longrightarrow> x \<le> fold max xs (a::nat)"
proof (induction xs arbitrary: a)
  case Nil
  then show ?case by simp
next
  case (Cons y ys)
  show ?case
  proof (cases "x = y")
    case True
    have "y \<le> max y a" by simp
    also have "\<dots> \<le> fold max ys (max y a)" by (rule fold_max_init)
    finally show ?thesis using True by simp
  next
    case False
    with Cons.prems have "x \<in> set ys" by simp
    from Cons.IH[OF this] show ?thesis by simp
  qed
qed

lemma fold_max_in: "fold max xs (a::nat) = a \<or> fold max xs a \<in> set xs"
proof (induction xs arbitrary: a)
  case Nil
  then show ?case by simp
next
  case (Cons y ys)
  from Cons.IH[of "max y a"] show ?case by (auto simp: max_def split: if_splits)
qed

lemma sort_key_head:
  assumes "sort_key f xs = y # ys"
  shows "y \<in> set xs" and "\<forall>x\<in>set xs. f y \<le> f x"
proof -
  have s: "set (sort_key f xs) = set xs" by simp
  with assms show "y \<in> set xs" by (metis list.set_intros(1))
  have "sorted (map f (sort_key f xs))" by (rule sorted_sort_key)
  with assms have "\<forall>x\<in>set ys. f y \<le> f x" by simp
  with assms s show "\<forall>x\<in>set xs. f y \<le> f x"
    by (metis order_refl set_ConsD)
qed

lemma count_list_JStr: "count_list (map JStr names) (JStr k) = count_list names k"
  by (induction names) auto

lemma filter_not_null_JStr: "filter (\<lambda>v. v \<noteq> JNull) (map JStr names) = map JStr names"
  by (induction names) auto

text \<open>
  Claim C5, as amended. On a Project column of names the selection returns a name of
  the column with the highest number of entries; when several names have that number
  it returns the one that comes first in the order of strings, wherever its entries
  stand in the column. The result depends on the column alone, and it is what the
  summary shows as the most active project.
\<close>

theorem mode0_names:
  "(names \<noteq> [] \<longrightarrow>
      (\<exists>m. mode0 (map JStr names) = Inr (JStr m) \<and> m \<in> set names
         \<and> (\<forall>k\<in>set names. count_list names k \<le> count_list names m)
         \<and> (\<forall>k\<in>set names. count_list names k = count_list names m \<longrightarrow> m \<le> k)))
   \<and> (tab2 lib today srv name log = (Inr (Activity_summary s), log') \<longrightarrow>
        mode0 (map Project (activity_data s)) = Inr (most_active s))"
proof (intro conjI impI)
  assume ne: "names \<noteq> []"
  let ?col = "map JStr names"
  let ?cnt = "count_list ?col"
  define peak where "peak = fold max (map ?cnt ?col) 0"
  let ?cands = "remdups (filter (\<lambda>v. ?cnt v = peak) ?col)"
  have mode: "mode ?col = sort_key label_key ?cands"
    by (simp add: mode_def filter_not_null_JStr peak_def Let_def)
  have ge: "?cnt v \<le> peak" if "v \<in> set ?col" for v
  proof -
    from that have "?cnt v \<in> set (map ?cnt ?col)" unfolding set_map by (rule imageI)
    then show ?thesis unfolding peak_def by (rule fold_max_ge)
  qed
  from ne obtain n0 where n0: "n0 \<in> set names" by (cases names) auto
  then have "0 < ?cnt (JStr n0)"
    using count_list_0_iff[of names n0] by (simp add: count_list_JStr)
  with ge[of "JStr n0"] n0 have "peak \<noteq> 0" by auto
  with fold_max_in[of "map ?cnt ?col" 0] have "peak \<in> set (map ?cnt ?col)"
    by (simp add: peak_def)
  then obtain v0 where "v0 \<in> set ?col" "?cnt v0 = peak" by auto
  then have "v0 \<in> set ?cands" by simp
  then have "sort_key label_key ?cands \<noteq> []"
    by (metis empty_iff list.set(1) set_sort)
  then obtain v vs where hd: "sort_key label_key ?cands = v # vs"
    by (cases "sort_key label_key ?cands") auto
  from sort_key_head[OF hd] have v: "v \<in> set ?cands"
    and least: "\<forall>x\<in>set ?cands. label_key v \<le> label_key x" by auto
  from v obtain m where m: "v = JStr m" "m \<in> set names" "?cnt (JStr m) = peak" by auto
  have res: "mode0 ?col = Inr (JStr m)"
    using mode hd m(1) by (simp add: mode0_def)
  have top: "\<forall>k\<in>set names. count_list names k \<le> count_list names m"
  proof
    fix k assume "k \<in> set names"
    then have "?cnt (JStr k) \<le> peak" by (intro ge) simp
    with m(3) show "count_list names k \<le> count_list names m" by (simp add: count_list_JStr)
  qed
  have tie: "\<forall>k\<in>set names. count_list names k = count_list names m \<longrightarrow> m \<le> k"
  proof (intro ballI impI)
    fix k assume k: "k \<in> set names" "count_list names k = count_list names m"
    with m(3) have "JStr k \<in> set ?cands" by (simp add: count_list_JStr)
    with least have "label_key v \<le> label_key (JStr k)" by blast
    with m(1) show "m \<le> k" by (simp add: label_key_def)
  qed
  from res m(2) top tie
  show "\<exists>m. mode0 (map JStr names) = Inr (JStr m) \<and> m \<in> set names
         \<and> (\<forall>k\<in>set names. count_list names k \<le> count_list names m)
         \<and> (\<forall>k\<in>set names. count_list names k = count_list names m \<longrightarrow> m \<le> k)"
    by blast
next
  assume "tab2 lib today srv name log = (Inr (Activity_summary s), log')"
  from tab2_summary[OF this]
  show "mode0 (map Project (activity_data s)) = Inr (most_active s)" by auto
qed

theorem mode0_names_witness:
  "[''gamma'', ''alpha'', ''beta''] \<noteq> []
   \<and> mode0 (map JStr [''gamma'', ''alpha'', ''beta'']) = Inr (JStr ''alpha'')
   \<and> tab2 lib0 today0 srv0 ''carol'' []
       = (Inr (Activity_summary carol_summary),
          [users_url ''carol'', events_url lib0 (JInt 9), project_url lib0 (JInt 4),
           project_url lib0 (JInt 1), project_url lib0 (JInt 3)])
   \<and> mode0 (map Project (activity_data carol_summary)) = Inr (most_active carol_summary)"
proof -
  have run: "tab2 lib0 today0 srv0 ''carol'' []
       = (Inr (Activity_summary carol_summary),
          [users_url ''carol'', events_url lib0 (JInt 9), project_url lib0 (JInt 4),
           project_url lib0 (JInt 1), project_url lib0 (JInt 3)])"
    by code_simp
  have m: "mode0 (map JStr [''gamma'', ''alpha'', ''beta'']) = Inr (JStr ''alpha'')"
    by code_simp
  from mode0_names[of "[''gamma'', ''alpha'', ''beta'']" lib0 today0 srv0 "''carol''" "[]" carol_summary
      "[users_url ''carol'', events_url lib0 (JInt 9), project_url lib0 (JInt 4),
           project_url lib0 (JInt 1), project_url lib0 (JInt 3)]"] run m
  show ?thesis by simp
qed

text \<open>
  The three projects of carol have one entry each. gamma is the first of the entries,
  beta is the earliest push and the first of the timeline, and the summary shows
  alpha.
\<close>

theorem most_active_counterexample:
  "fst (tab2 lib0 today0 srv0 ''carol'' []) = Inr (Activity_summary carol_summary)
   \<and> proj_count carol_summary = [(JStr ''gamma'', 1), (JStr ''alpha'', 1), (JStr ''beta'', 1)]
   \<and> map Project (activity_data carol_summary) = [JStr ''gamma'', JStr ''alpha'', JStr ''beta'']
   \<and> map T_Project (time_df carol_summary) = [JStr ''beta'', JStr ''alpha'', JStr ''gamma'']
   \<and> most_active carol_summary = JStr ''alpha''"
  by code_simp

end
